theory Spec2Isabelle
  imports Complex_Main
begin

section \<open>Values, exceptions and the plotting calls\<close>

text \<open>
  The helpers of \<^verbatim>\<open>plot_utility.py\<close> compute nothing but the arguments of calls to
  the array library and to the plotting library.  Arrays are lists; the feature
  matrix of shape \<open>(n_samples, 2)\<close> is a list of rows, each a pair; class labels are
  integers.  A floating point number is the real number it denotes, and the
  arithmetic of the grid is rounded: the rounding of a real to the nearest
  float64 is a parameter \<open>fl\<close> of the functions that compute the grid
  (infinities and NaN are not modelled).

  An exception is a value.  The source has no \<^verbatim>\<open>raise\<close> and no \<^verbatim>\<open>try\<close>: every
  exception comes from the array library (\<open>IndexError\<close>, \<open>ValueError\<close>), from a
  plotting call (\<open>PlotError\<close>, with the library's message) or from code the
  caller supplies or the script imports: the \<^verbatim>\<open>predict\<close> method of an estimator,
  the machine-learning toolkit (\<open>ExternalError\<close>).
\<close>

datatype error = IndexError | ValueError | PlotError string | ExternalError string

datatype lbl = Lab int | Txt string

record scatter_args =
  sc_x :: "real list"
  sc_y :: "real list"
  sc_alpha :: "real option"
  sc_c :: string
  sc_marker :: "string option"
  sc_edgecolor :: string
  sc_linewidth :: "real option"
  sc_s :: "real option"
  sc_label :: lbl

datatype plt_call =
    Scatter scatter_args
  | Contourf "real list list" "real list list" "int list list" real "string list"
  | Plot "real list" "real list" string real
  | Hlines real real real string real
  | Xlim real real
  | Ylim real real
  | Xlabel string
  | Ylabel string
  | Title string
  | Legend string
  | Show

text \<open>
  The plotting library is a parameter: a backend says of each call whether it
  returns (\<open>None\<close>) or raises (\<open>Some msg\<close>).  A run is the list of plotting calls
  made so far, the lines printed so far, and the exception in flight, if any.
\<close>

type_synonym backend = "plt_call \<Rightarrow> string option"

record run =
  calls :: "plt_call list"
  stdout :: "string list"
  raised :: "error option"

definition empty_run :: run where
  "empty_run = \<lparr>calls = [], stdout = [], raised = None\<rparr>"

text \<open>
  A statement of a helper is a plotting call whose arguments were computed, an
  exception raised while computing them, or a \<^verbatim>\<open>print\<close>.  Statements run in
  order; the first exception ends the run.
\<close>

datatype stmt = Call plt_call | Raise error | Print string

fun step :: "backend \<Rightarrow> stmt \<Rightarrow> run \<Rightarrow> run" where
  "step plt (Call c) r = r\<lparr>calls := calls r @ [c], raised := map_option PlotError (plt c)\<rparr>"
| "step plt (Raise e) r = r\<lparr>raised := Some e\<rparr>"
| "step plt (Print s) r = r\<lparr>stdout := stdout r @ [s]\<rparr>"

fun exec :: "backend \<Rightarrow> stmt list \<Rightarrow> run \<Rightarrow> run" where
  "exec plt [] r = r"
| "exec plt (s # ss) r =
     (case raised r of Some e \<Rightarrow> r | None \<Rightarrow> exec plt ss (step plt s r))"

text \<open>A call whose arguments come from an array operation that may raise.\<close>

definition call_with :: "error + 'a \<Rightarrow> ('a \<Rightarrow> plt_call) \<Rightarrow> stmt" where
  "call_with v f = (case v of Inl e \<Rightarrow> Raise e | Inr a \<Rightarrow> Call (f a))"

text \<open>Sequencing of computations that may raise: the first exception wins.\<close>

definition bind_err :: "error + 'a \<Rightarrow> ('a \<Rightarrow> error + 'b) \<Rightarrow> error + 'b" where
  "bind_err v f = (case v of Inl e \<Rightarrow> Inl e | Inr a \<Rightarrow> f a)"

text \<open>
  An estimator is an object with a \<^verbatim>\<open>predict\<close> method, which returns an array or
  raises.  The record is extensible: whatever else the object carries is its
  \<open>more\<close> part.
\<close>

record ('x, 'v) estimator =
  predict :: "'x \<Rightarrow> string + 'v"

definition external :: "string + 'a \<Rightarrow> error + 'a" where
  "external v = (case v of Inl msg \<Rightarrow> Inl (ExternalError msg) | Inr a \<Rightarrow> Inr a)"

definition call_predict :: "('x, 'v, 'z) estimator_scheme \<Rightarrow> 'x \<Rightarrow> error + 'v" where
  "call_predict est a = external (predict est a)"

section \<open>The array operations the helpers use\<close>

text \<open>\<^verbatim>\<open>np.unique(y)\<close>: the distinct entries, ascending.\<close>

definition np_unique :: "int list \<Rightarrow> int list" where
  "np_unique y = sort (remdups y)"

text \<open>
  \<^verbatim>\<open>a[mask]\<close> with a boolean mask: the entries where the mask is true; a mask of
  another length is an \<open>IndexError\<close>.
\<close>

definition np_mask :: "'a list \<Rightarrow> bool list \<Rightarrow> error + 'a list" where
  "np_mask xs m =
     (if length m = length xs then Inr (map fst (filter snd (zip xs m)))
      else Inl IndexError)"

text \<open>
  A list of Python integers used as an index becomes an array of 64-bit signed
  integers: as it is when every entry fits; wrapped around when the entries are
  all non-negative and below \<open>2 ^ 64\<close> (an unsigned array, cast); any other list
  is no integer array, an \<open>IndexError\<close>.
\<close>

definition as_intp :: "int list \<Rightarrow> error + int list" where
  "as_intp idx =
     (if list_all (\<lambda>i. - (2 ^ 63) \<le> i \<and> i < 2 ^ 63) idx then Inr idx
      else if list_all (\<lambda>i. 0 \<le> i \<and> i < 2 ^ 64) idx
      then Inr (map (\<lambda>i. if i < 2 ^ 63 then i else i - 2 ^ 64) idx)
      else Inl IndexError)"

text \<open>
  \<^verbatim>\<open>a[idx]\<close> with a list of integers: the list becomes an index array, negative
  indices count from the end, an index out of range is an \<open>IndexError\<close>.
\<close>

definition np_take :: "'a list \<Rightarrow> int list \<Rightarrow> error + 'a list" where
  "np_take xs idx =
     bind_err (as_intp idx) (\<lambda>js.
       let n = int (length xs) in
       if list_all (\<lambda>i. - n \<le> i \<and> i < n) js
       then Inr (map (\<lambda>i. xs ! nat (if i < 0 then i + n else i)) js)
       else Inl IndexError)"

text \<open>\<^verbatim>\<open>a.min()\<close> and \<^verbatim>\<open>a.max()\<close>: a \<open>ValueError\<close> on an empty array.\<close>

definition np_min :: "real list \<Rightarrow> error + real" where
  "np_min xs = (case xs of [] \<Rightarrow> Inl ValueError | v # vs \<Rightarrow> Inr (fold min vs v))"

definition np_max :: "real list \<Rightarrow> error + real" where
  "np_max xs = (case xs of [] \<Rightarrow> Inl ValueError | v # vs \<Rightarrow> Inr (fold max vs v))"

text \<open>
  \<^verbatim>\<open>np.arange(start, stop, step)\<close> on floats, every operation rounded by \<open>fl\<close>.
  The length is \<open>ceil((stop - start) / step)\<close>, none when that is not positive;
  it cannot be computed for a zero step, a \<open>ValueError\<close>.  The first value is
  \<open>start\<close>, the second \<open>start + step\<close>; the others are \<open>start + i * delta\<close>, where
  \<open>delta\<close> is the second value minus the first.
\<close>

definition np_arange :: "(real \<Rightarrow> real) \<Rightarrow> real \<Rightarrow> real \<Rightarrow> real \<Rightarrow> error + real list" where
  "np_arange fl start stop stp =
     (if stp = 0 then Inl ValueError
      else
        let n = nat \<lceil>fl (fl (stop - start) / stp)\<rceil>;
            second = fl (start + stp);
            delta = fl (second - start)
        in Inr (map (\<lambda>i. if i = 0 then start else if i = 1 then second
                            else fl (start + fl (real i * delta))) [0..<n]))"

text \<open>
  \<^verbatim>\<open>np.meshgrid(a, b)\<close>: two arrays of shape \<open>(len b, len a)\<close>, the first repeating
  \<open>a\<close> in every row, the second holding \<open>b[i]\<close> all along row \<open>i\<close>.
\<close>

definition np_meshgrid :: "real list \<Rightarrow> real list \<Rightarrow> real list list \<times> real list list" where
  "np_meshgrid a b = (map (\<lambda>_. a) b, map (\<lambda>v. map (\<lambda>_. v) a) b)"

text \<open>\<^verbatim>\<open>z.reshape(rows, cols)\<close>: a \<open>ValueError\<close> unless the sizes agree.\<close>

definition np_reshape :: "'a list \<Rightarrow> nat \<Rightarrow> nat \<Rightarrow> error + 'a list list" where
  "np_reshape z nrows ncols =
     (if length z = nrows * ncols
      then Inr (map (\<lambda>i. take ncols (drop (i * ncols) z)) [0..<nrows])
      else Inl ValueError)"

text \<open>
  \<^verbatim>\<open>a - b\<close> on one-dimensional arrays: elementwise, an array of length one
  broadcast against the other, a \<open>ValueError\<close> for any other pair of lengths.
\<close>

definition np_sub :: "real list \<Rightarrow> real list \<Rightarrow> error + real list" where
  "np_sub a b =
     (if length a = length b then Inr (map (\<lambda>(u, v). u - v) (zip a b))
      else if length b = 1 then Inr (map (\<lambda>u. u - hd b) a)
      else if length a = 1 then Inr (map (\<lambda>v. hd a - v) b)
      else Inl ValueError)"

section \<open>plot\_features\<close>

definition markers :: "string list" where
  "markers = [''s'', ''x'', ''o'', ''^'', ''v'']"

definition colors :: "string list" where
  "colors = [''red'', ''blue'', ''lightgreen'', ''gray'', ''cyan'']"

text \<open>
  The body of the loop \<^verbatim>\<open>for color, marker, label in zip(colors, markers, np.unique(y))\<close>:
  \<^verbatim>\<open>plot_index = (y == label)\<close>, then the scatter of \<^verbatim>\<open>X[plot_index, 0]\<close> against
  \<^verbatim>\<open>X[plot_index, 1]\<close>.
\<close>

definition scatter_class ::
  "(real \<times> real) list \<Rightarrow> int list \<Rightarrow> string \<times> string \<times> int \<Rightarrow> stmt" where
  "scatter_class X y cml =
     (case cml of (color, marker, label) \<Rightarrow>
        call_with (np_mask X (map (\<lambda>v. v = label) y))
          (\<lambda>rows. Scatter \<lparr>sc_x = map fst rows, sc_y = map snd rows, sc_alpha = Some 0.8,
             sc_c = color, sc_marker = Some marker, sc_edgecolor = ''black'',
             sc_linewidth = None, sc_s = None, sc_label = Lab label\<rparr>))"

text \<open>
  \<^verbatim>\<open>if test_idx:\<close> is false for \<^verbatim>\<open>None\<close> and for the empty list; otherwise the
  rows \<^verbatim>\<open>X[test_idx]\<close> are drawn as hollow circles.
\<close>

definition scatter_test :: "(real \<times> real) list \<Rightarrow> int list option \<Rightarrow> stmt list" where
  "scatter_test X test_idx =
     (case test_idx of
        None \<Rightarrow> []
      | Some idx \<Rightarrow>
          if idx = [] then []
          else [call_with (np_take X idx)
            (\<lambda>rows. Scatter \<lparr>sc_x = map fst rows, sc_y = map snd rows, sc_alpha = Some 1.0,
               sc_c = '''', sc_marker = Some ''o'', sc_edgecolor = ''black'',
               sc_linewidth = Some 1, sc_s = Some 100, sc_label = Txt ''test_set''\<rparr>)])"

text \<open>\<^verbatim>\<open>if title is not None: plt.title(title)\<close>.\<close>

definition set_title :: "string option \<Rightarrow> stmt list" where
  "set_title title = (case title of None \<Rightarrow> [] | Some t \<Rightarrow> [Call (Title t)])"

definition plot_features ::
  "backend \<Rightarrow> (real \<times> real) list \<Rightarrow> int list \<Rightarrow> int list option \<Rightarrow>
   string \<Rightarrow> string \<Rightarrow> string option \<Rightarrow> string \<Rightarrow> run \<Rightarrow> run" where
  "plot_features plt X y test_idx xlabel ylabel title loc =
     exec plt
       (map (scatter_class X y) (zip colors (zip markers (np_unique y)))
        @ scatter_test X test_idx
        @ [Call (Xlabel xlabel), Call (Ylabel ylabel)]
        @ set_title title
        @ [Call (Legend loc), Call Show])"

section \<open>plot\_decision\_regions\<close>

text \<open>
  Lines 105 to 107: the plot area is one unit wider than the samples on every
  side, and the grid points are \<^verbatim>\<open>np.arange\<close> over it in both directions.
\<close>

definition grid ::
  "(real \<Rightarrow> real) \<Rightarrow> (real \<times> real) list \<Rightarrow> real \<Rightarrow>
   error + (real list list \<times> real list list)" where
  "grid fl X resolution =
     bind_err (np_min (map fst X)) (\<lambda>lo1.
     bind_err (np_max (map fst X)) (\<lambda>hi1.
     bind_err (np_min (map snd X)) (\<lambda>lo2.
     bind_err (np_max (map snd X)) (\<lambda>hi2.
     bind_err (np_arange fl (fl (lo1 - 1)) (fl (hi1 + 1)) resolution) (\<lambda>a.
     bind_err (np_arange fl (fl (lo2 - 1)) (fl (hi2 + 1)) resolution) (\<lambda>b.
     Inr (np_meshgrid a b)))))))"

text \<open>The second component of the shape of a two-dimensional array.\<close>

definition ncols :: "'a list list \<Rightarrow> nat" where
  "ncols m = (case m of [] \<Rightarrow> 0 | row # _ \<Rightarrow> length row)"

text \<open>Lines 110 and 111: predict every grid point, reshape to the grid.\<close>

definition predict_grid ::
  "((real \<times> real) list, int list, 'z) estimator_scheme \<Rightarrow> real list list \<Rightarrow> real list list \<Rightarrow>
   error + int list list" where
  "predict_grid classifier x1 x2 =
     bind_err (call_predict classifier (zip (concat x1) (concat x2)))
       (\<lambda>z. np_reshape z (length x1) (ncols x1))"

text \<open>\<^verbatim>\<open>(a.min(), a.max())\<close> of a two-dimensional array.\<close>

definition min_max :: "real list list \<Rightarrow> error + (real \<times> real)" where
  "min_max a =
     bind_err (np_min (concat a)) (\<lambda>lo. bind_err (np_max (concat a)) (\<lambda>hi. Inr (lo, hi)))"

text \<open>
  The helper.  The colour map \<^verbatim>\<open>ListedColormap(colors[:len(np.unique(y))])\<close> is
  the list of its colours, an argument of \<^verbatim>\<open>plt.contourf\<close>.
\<close>

definition plot_decision_regions ::
  "(real \<Rightarrow> real) \<Rightarrow> backend \<Rightarrow> (real \<times> real) list \<Rightarrow> int list \<Rightarrow>
   ((real \<times> real) list, int list, 'z) estimator_scheme \<Rightarrow> int list option \<Rightarrow> real \<Rightarrow>
   string \<Rightarrow> string \<Rightarrow> string option \<Rightarrow> string \<Rightarrow> run \<Rightarrow> run" where
  "plot_decision_regions fl plt X y classifier test_idx resolution xlabel ylabel title loc =
     exec plt
       (case grid fl X resolution of
          Inl e \<Rightarrow> [Raise e]
        | Inr (x1, x2) \<Rightarrow>
            [call_with (predict_grid classifier x1 x2)
               (\<lambda>z. Contourf x1 x2 z 0.3 (take (length (np_unique y)) colors))]
            @ map (scatter_class X y) (zip colors (zip markers (np_unique y)))
            @ scatter_test X test_idx
            @ [call_with (min_max x1) (\<lambda>(lo, hi). Xlim lo hi),
               call_with (min_max x2) (\<lambda>(lo, hi). Ylim lo hi),
               Call (Xlabel xlabel), Call (Ylabel ylabel)]
            @ set_title title
            @ [Call (Legend loc), Call Show])"

section \<open>plot\_predictions and plot\_residuals\<close>

text \<open>
  The overlay of the two regression helpers: \<^verbatim>\<open>xs[test_idx]\<close> against
  \<^verbatim>\<open>ys[test_idx]\<close> under the same truthiness guard, with the marker size the
  helper gives.
\<close>

definition scatter_test_data ::
  "real list \<Rightarrow> real list \<Rightarrow> int list option \<Rightarrow> real \<Rightarrow> stmt list" where
  "scatter_test_data xs ys test_idx msize =
     (case test_idx of
        None \<Rightarrow> []
      | Some idx \<Rightarrow>
          if idx = [] then []
          else [call_with
            (bind_err (np_take xs idx) (\<lambda>a. bind_err (np_take ys idx) (\<lambda>b. Inr (a, b))))
            (\<lambda>(a, b). Scatter \<lparr>sc_x = a, sc_y = b, sc_alpha = Some 1.0,
               sc_c = '''', sc_marker = Some ''o'', sc_edgecolor = ''black'',
               sc_linewidth = Some 1, sc_s = Some msize, sc_label = Txt ''test data''\<rparr>)])"

text \<open>\<^verbatim>\<open>if test_idx is not None: plt.legend(loc=loc)\<close>.\<close>

definition legend_if_given :: "int list option \<Rightarrow> string \<Rightarrow> stmt list" where
  "legend_if_given test_idx loc =
     (case test_idx of None \<Rightarrow> [] | Some _ \<Rightarrow> [Call (Legend loc)])"

definition plot_predictions ::
  "backend \<Rightarrow> real list \<Rightarrow> real list \<Rightarrow> (real list list, real list, 'z) estimator_scheme \<Rightarrow>
   int list option \<Rightarrow> string \<Rightarrow> string \<Rightarrow> string option \<Rightarrow> string \<Rightarrow> run \<Rightarrow> run" where
  "plot_predictions plt x y regressor test_idx xlabel ylabel title loc =
     exec plt
       ([call_with (call_predict regressor (map (\<lambda>v. [v]) x)) (\<lambda>p. Plot x p ''black'' 1),
         Call (Scatter \<lparr>sc_x = x, sc_y = y, sc_alpha = None, sc_c = ''steelblue'',
           sc_marker = None, sc_edgecolor = ''white'', sc_linewidth = None, sc_s = Some 70,
           sc_label = Txt ''training data''\<rparr>)]
        @ scatter_test_data x y test_idx 100
        @ [Call (Xlabel xlabel), Call (Ylabel ylabel)]
        @ set_title title
        @ legend_if_given test_idx loc
        @ [Call Show])"

text \<open>Lines 229 and 230: \<^verbatim>\<open>scatter_x, scatter_y = y_pred, y_pred - y\<close>.\<close>

definition residuals ::
  "(real list list, real list, 'z) estimator_scheme \<Rightarrow> real list list \<Rightarrow> real list \<Rightarrow>
   error + (real list \<times> real list)" where
  "residuals regressor X y =
     bind_err (call_predict regressor X) (\<lambda>y_pred.
     bind_err (np_sub y_pred y) (\<lambda>d. Inr (y_pred, d)))"

definition plot_residuals ::
  "backend \<Rightarrow> real list list \<Rightarrow> real list \<Rightarrow> (real list list, real list, 'z) estimator_scheme \<Rightarrow>
   int list option \<Rightarrow> string \<Rightarrow> string \<Rightarrow> string option \<Rightarrow> string \<Rightarrow> run \<Rightarrow> run" where
  "plot_residuals plt X y regressor test_idx xlabel ylabel title loc =
     exec plt
       (case residuals regressor X y of
          Inl e \<Rightarrow> [Raise e]
        | Inr (scatter_x, scatter_y) \<Rightarrow>
            [Call (Scatter \<lparr>sc_x = scatter_x, sc_y = scatter_y, sc_alpha = None,
               sc_c = ''steelblue'', sc_marker = Some ''o'', sc_edgecolor = ''white'',
               sc_linewidth = None, sc_s = None, sc_label = Txt ''training data''\<rparr>)]
            @ scatter_test_data scatter_x scatter_y test_idx 75
            @ [Call (Hlines 0 (-10) 50 ''black'' 1),
               Call (Xlabel xlabel), Call (Ylabel ylabel)]
            @ set_title title
            @ legend_if_given test_idx loc
            @ [Call Show])"

section \<open>The example script\<close>

text \<open>
  The machine-learning toolkit is a parameter, as the plotting library is: the
  split of the data, the fit of the scaler (which gives its \<^verbatim>\<open>transform\<close>) and the
  fit of a k-nearest-neighbours classifier, each returning or raising.  The data
  set comes from \<^verbatim>\<open>data_utility.IrisData\<close>, a module the script imports; its
  \<open>X\<close> and \<open>y\<close> are arguments of \<open>main\<close>.
\<close>

type_synonym samples = "(real \<times> real) list"

record sklearn =
  train_test_split ::
    "samples \<Rightarrow> int list \<Rightarrow> real \<Rightarrow> nat \<Rightarrow> int list \<Rightarrow>
     string + (samples \<times> samples \<times> int list \<times> int list)"
  scaler_fit :: "samples \<Rightarrow> string + (samples \<Rightarrow> string + samples)"
  knn_fit ::
    "nat \<Rightarrow> nat \<Rightarrow> string \<Rightarrow> samples \<Rightarrow> int list \<Rightarrow> string + (samples, int list) estimator"

text \<open>Python's \<^verbatim>\<open>str\<close> of a non-negative integer.\<close>

fun str_nat :: "nat \<Rightarrow> string" where
  "str_nat n =
     (if n < 10 then [''0123456789'' ! n]
      else str_nat (n div 10) @ [''0123456789'' ! (n mod 10)])"

text \<open>
  \<^verbatim>\<open>a != b\<close> on one-dimensional arrays, with the broadcasting of \<open>np_sub\<close>, and
  \<^verbatim>\<open>np.sum\<close> of a boolean array: the number of true entries.
\<close>

definition np_ne :: "int list \<Rightarrow> int list \<Rightarrow> error + bool list" where
  "np_ne a b =
     (if length a = length b then Inr (map (\<lambda>(u, v). u \<noteq> v) (zip a b))
      else if length b = 1 then Inr (map (\<lambda>u. u \<noteq> hd b) a)
      else if length a = 1 then Inr (map (\<lambda>v. hd a \<noteq> v) b)
      else Inl ValueError)"

definition np_sum :: "bool list \<Rightarrow> nat" where
  "np_sum bs = length (filter (\<lambda>b. b) bs)"

text \<open>Lines 34 to 39: the four classifiers, fitted in this order.\<close>

definition fit_classifiers ::
  "sklearn \<Rightarrow> samples \<Rightarrow> int list \<Rightarrow> error + (samples, int list) estimator list" where
  "fit_classifiers sk X_train_std y_train =
     bind_err (external (knn_fit sk 4 2 ''minkowski'' X_train_std y_train)) (\<lambda>c1.
     bind_err (external (knn_fit sk 5 2 ''minkowski'' X_train_std y_train)) (\<lambda>c2.
     bind_err (external (knn_fit sk 6 2 ''minkowski'' X_train_std y_train)) (\<lambda>c3.
     bind_err (external (knn_fit sk 5 1 ''minkowski'' X_train_std y_train)) (\<lambda>c4.
     Inr [c1, c2, c3, c4]))))"

text \<open>Lines 24 to 39: split, standardise, fit.\<close>

definition prepare ::
  "sklearn \<Rightarrow> samples \<Rightarrow> int list \<Rightarrow>
   error + (samples \<times> samples \<times> int list \<times> int list \<times> (samples, int list) estimator list)" where
  "prepare sk X y =
     bind_err (external (train_test_split sk X y 0.3 1 y)) (\<lambda>(X_train, X_test, y_train, y_test).
     bind_err (external (scaler_fit sk X_train)) (\<lambda>transform.
     bind_err (external (transform X_train)) (\<lambda>X_train_std.
     bind_err (external (transform X_test)) (\<lambda>X_test_std.
     bind_err (fit_classifiers sk X_train_std y_train) (\<lambda>classifiers.
     Inr (X_train_std, X_test_std, y_train, y_test, classifiers))))))"

text \<open>\<^verbatim>\<open>list(range(len(y_train), len(y)))\<close>, line 47.\<close>

definition test_indices :: "int list \<Rightarrow> int list \<Rightarrow> int list" where
  "test_indices y_train y = map int [length y_train..<length y]"

text \<open>Lines 43 and 44: the line printed for a classifier.\<close>

definition report ::
  "(samples, int list) estimator \<Rightarrow> samples \<Rightarrow> int list \<Rightarrow> stmt" where
  "report classifier X_test_std y_test =
     (case bind_err (call_predict classifier X_test_std) (\<lambda>y_pred. np_ne y_test y_pred) of
        Inl e \<Rightarrow> Raise e
      | Inr wrong \<Rightarrow> Print (''misclassified samples: '' @ str_nat (np_sum wrong)))"

text \<open>
  The body of the loop over the classifiers, lines 41 to 47; the other arguments
  of \<open>plot_decision_regions\<close> are its defaults, the resolution the float written
  \<^verbatim>\<open>0.02\<close>.
\<close>

definition show_classifier ::
  "(real \<Rightarrow> real) \<Rightarrow> backend \<Rightarrow> samples \<Rightarrow> samples \<Rightarrow> int list \<Rightarrow> int list \<Rightarrow> int list \<Rightarrow>
   (samples, int list) estimator \<Rightarrow> run \<Rightarrow> run" where
  "show_classifier fl plt X_train_std X_test_std y_train y_test y classifier r =
     plot_decision_regions fl plt (X_train_std @ X_test_std) (y_train @ y_test) classifier
       (Some (test_indices y_train y)) (fl 0.02) ''x'' ''y'' None ''best''
       (exec plt [report classifier X_test_std y_test] r)"

definition main ::
  "(real \<Rightarrow> real) \<Rightarrow> backend \<Rightarrow> sklearn \<Rightarrow> samples \<Rightarrow> int list \<Rightarrow> run \<Rightarrow> run" where
  "main fl plt sk X y r =
     (case prepare sk X y of
        Inl e \<Rightarrow> exec plt [Raise e] r
      | Inr (X_train_std, X_test_std, y_train, y_test, classifiers) \<Rightarrow>
          fold (show_classifier fl plt X_train_std X_test_std y_train y_test y) classifiers r)"

section \<open>Notions used to state the properties\<close>

text \<open>The plotting calls a list of statements makes when nothing raises.\<close>

fun planned :: "stmt list \<Rightarrow> plt_call list" where
  "planned [] = []"
| "planned (Call c # ss) = c # planned ss"
| "planned (Raise e # ss) = planned ss"
| "planned (Print s # ss) = planned ss"

fun raises :: "stmt \<Rightarrow> bool" where
  "raises (Raise e) = True"
| "raises _ = False"

text \<open>
  A training-data scatter call is a scatter whose legend label is a class label;
  it is read as the label and the points drawn.  The overlays carry a text label.
\<close>

fun training_scatter :: "plt_call \<Rightarrow> (int \<times> (real \<times> real) list) list" where
  "training_scatter (Scatter a) =
     (case sc_label a of Lab l \<Rightarrow> [(l, zip (sc_x a) (sc_y a))] | Txt _ \<Rightarrow> [])"
| "training_scatter _ = []"

definition training_scatters :: "run \<Rightarrow> (int \<times> (real \<times> real) list) list" where
  "training_scatters r = concat (map training_scatter (calls r))"

definition planned_training :: "stmt list \<Rightarrow> (int \<times> (real \<times> real) list) list" where
  "planned_training ss = concat (map training_scatter (planned ss))"

text \<open>The rows of \<open>X\<close> whose entry in \<open>y\<close> is the label, in order.\<close>

definition rows_with_label :: "(real \<times> real) list \<Rightarrow> int list \<Rightarrow> int \<Rightarrow> (real \<times> real) list" where
  "rows_with_label X y l = map fst (filter (\<lambda>(p, v). v = l) (zip X y))"

fun prints :: "stmt \<Rightarrow> bool" where
  "prints (Print s) = True"
| "prints _ = False"

text \<open>
  The overlay of the held-out samples is the scatter labelled \<^verbatim>\<open>'test_set'\<close> or
  \<^verbatim>\<open>'test data'\<close>; the legend is the call \<^verbatim>\<open>plt.legend\<close>.
\<close>

fun is_overlay :: "plt_call \<Rightarrow> bool" where
  "is_overlay (Scatter a) = (sc_label a = Txt ''test_set'' \<or> sc_label a = Txt ''test data'')"
| "is_overlay _ = False"

fun is_legend :: "plt_call \<Rightarrow> bool" where
  "is_legend (Legend loc) = True"
| "is_legend _ = False"

text \<open>Every sample lies within the limits of the two axes.\<close>

definition inside_limits :: "real \<times> real \<Rightarrow> real \<times> real \<Rightarrow> (real \<times> real) list \<Rightarrow> bool" where
  "inside_limits xlim ylim X =
     list_all (\<lambda>(u, v). fst xlim \<le> u \<and> u \<le> snd xlim \<and> fst ylim \<le> v \<and> v \<le> snd ylim) X"

text \<open>
  Every sample lies at or above the lower limits of the two axes.
\<close>

definition above_lower_limits :: "real \<Rightarrow> real \<Rightarrow> (real \<times> real) list \<Rightarrow> bool" where
  "above_lower_limits xlo ylo X = list_all (\<lambda>(u, v). xlo \<le> u \<and> ylo \<le> v) X"

text \<open>
  What the properties of the grid need of float64 arithmetic: every operation
  returns its exact result rounded by a function that is monotone, leaves a
  float unchanged and maps zero to zero.  Overflow and NaN are not modelled.
\<close>

definition rounding :: "(real \<Rightarrow> real) \<Rightarrow> bool" where
  "rounding fl = ((\<forall>a b. a \<le> b \<longrightarrow> fl a \<le> fl b) \<and> (\<forall>a. fl (fl a) = fl a) \<and> fl 0 = 0)"

text \<open>
  The number of positions at which the prediction differs from the true label,
  and the line the script prints for a count.
\<close>

definition misclassified :: "int list \<Rightarrow> int list \<Rightarrow> nat" where
  "misclassified y_test y_pred = length (filter (\<lambda>i. y_test ! i \<noteq> y_pred ! i) [0..<length y_test])"

definition report_line :: "nat \<Rightarrow> string" where
  "report_line n = ''misclassified samples: '' @ str_nat n"

text \<open>
  How an exception of the plotting library shows in a run: every call but the
  last returned; if the last call raised, its exception is the run's; and the
  run ends with an exception of the plotting library in no other case.
\<close>

fun is_plot_error :: "error \<Rightarrow> bool" where
  "is_plot_error (PlotError msg) = True"
| "is_plot_error _ = False"

definition surfaces :: "backend \<Rightarrow> run \<Rightarrow> bool" where
  "surfaces plt r =
     (list_all (\<lambda>c. plt c = None) (butlast (calls r)) \<and>
      (case (if calls r = [] then None else plt (last (calls r))) of
         None \<Rightarrow> (case raised r of None \<Rightarrow> True | Some e \<Rightarrow> \<not> is_plot_error e)
       | Some msg \<Rightarrow> raised r = Some (PlotError msg)))"

text \<open>
  The exceptions the array library and \<^verbatim>\<open>predict\<close> raise on the input of a
  helper, operation by operation: the masks of the first five labels and the
  rows \<^verbatim>\<open>X[test_idx]\<close> in \<open>plot_features\<close>; the grid, the prediction on it, the
  same masks and rows and the limits in \<open>plot_decision_regions\<close>; the prediction
  and the entries at \<open>test_idx\<close> in \<open>plot_predictions\<close>; the residuals and the
  entries at \<open>test_idx\<close> in \<open>plot_residuals\<close>.
\<close>

definition features_library_error ::
  "(real \<times> real) list \<Rightarrow> int list \<Rightarrow> int list option \<Rightarrow> error \<Rightarrow> bool" where
  "features_library_error X y test_idx e =
     (list_ex (\<lambda>label. np_mask X (map (\<lambda>v. v = label) y) = Inl e) (take 5 (np_unique y))
      \<or> (case test_idx of None \<Rightarrow> False | Some idx \<Rightarrow> idx \<noteq> [] \<and> np_take X idx = Inl e))"

definition regions_library_error ::
  "(real \<Rightarrow> real) \<Rightarrow> (real \<times> real) list \<Rightarrow> int list \<Rightarrow>
   ((real \<times> real) list, int list, 'z) estimator_scheme \<Rightarrow> int list option \<Rightarrow> real \<Rightarrow> error \<Rightarrow> bool" where
  "regions_library_error fl X y classifier test_idx resolution e =
     (case grid fl X resolution of
        Inl e' \<Rightarrow> e = e'
      | Inr (x1, x2) \<Rightarrow>
          predict_grid classifier x1 x2 = Inl e \<or> features_library_error X y test_idx e
          \<or> min_max x1 = Inl e \<or> min_max x2 = Inl e)"

definition overlay_library_error ::
  "real list \<Rightarrow> real list \<Rightarrow> int list option \<Rightarrow> error \<Rightarrow> bool" where
  "overlay_library_error xs ys test_idx e =
     (case test_idx of
        None \<Rightarrow> False
      | Some idx \<Rightarrow> idx \<noteq> [] \<and> (np_take xs idx = Inl e \<or> np_take ys idx = Inl e))"

definition predictions_library_error ::
  "real list \<Rightarrow> real list \<Rightarrow> (real list list, real list, 'z) estimator_scheme \<Rightarrow>
   int list option \<Rightarrow> error \<Rightarrow> bool" where
  "predictions_library_error x y regressor test_idx e =
     (call_predict regressor (map (\<lambda>v. [v]) x) = Inl e \<or> overlay_library_error x y test_idx e)"

definition residuals_library_error ::
  "real list list \<Rightarrow> real list \<Rightarrow> (real list list, real list, 'z) estimator_scheme \<Rightarrow>
   int list option \<Rightarrow> error \<Rightarrow> bool" where
  "residuals_library_error X y regressor test_idx e =
     (case residuals regressor X y of
        Inl e' \<Rightarrow> e = e'
      | Inr (scatter_x, scatter_y) \<Rightarrow> overlay_library_error scatter_x scatter_y test_idx e)"

text \<open>
  The overlay of the test samples as \<open>plot_features\<close> and \<open>plot_decision_regions\<close>
  draw it, and the overlays among the calls of a run.
\<close>

definition test_set_scatter :: "samples \<Rightarrow> plt_call" where
  "test_set_scatter rows =
     Scatter \<lparr>sc_x = map fst rows, sc_y = map snd rows, sc_alpha = Some 1.0,
       sc_c = '''', sc_marker = Some ''o'', sc_edgecolor = ''black'',
       sc_linewidth = Some 1, sc_s = Some 100, sc_label = Txt ''test_set''\<rparr>"

definition overlays :: "run \<Rightarrow> plt_call list" where
  "overlays r = filter is_overlay (calls r)"

text \<open>
  The shape of a helper's body: at most \<open>n\<close> statements, at most five of them
  training-data scatter calls, none a \<^verbatim>\<open>print\<close>, and \<^verbatim>\<open>plt.show()\<close> last unless
  the arguments of some call cannot be computed.
\<close>

definition body :: "nat \<Rightarrow> stmt list \<Rightarrow> bool" where
  "body n ss = (length ss \<le> n \<and> length (planned_training ss) \<le> 5 \<and> \<not> list_ex prints ss \<and>
     (list_ex raises ss \<or> (ss \<noteq> [] \<and> last ss = Call Show)))"

text \<open>
  Concrete inputs for the examples: arithmetic without rounding error (float64
  arithmetic on the small integers of the examples), the backend on which every
  call returns, and a classifier that predicts one label everywhere.
\<close>

definition exact :: "real \<Rightarrow> real" where
  "exact v = v"

definition quiet :: backend where
  "quiet c = None"

definition constant_classifier :: "int \<Rightarrow> ((real \<times> real) list, int list) estimator" where
  "constant_classifier l = \<lparr>predict = \<lambda>points. Inr (map (\<lambda>_. l) points)\<rparr>"

text \<open>A backend on which \<^verbatim>\<open>plt.legend\<close> raises and every other call returns.\<close>

definition failing_legend :: backend where
  "failing_legend c = (if is_legend c then Some ''no handles'' else None)"

text \<open>
  A stand-in for the toolkit: the split puts the first two samples in the
  training set, the scaler changes nothing, and the classifier fitted with \<open>k\<close>
  neighbours predicts the label \<open>k mod 2\<close> everywhere.
\<close>

definition toy_sklearn :: sklearn where
  "toy_sklearn =
     \<lparr>train_test_split = (\<lambda>X y test_size random_state stratify.
          Inr (take 2 X, drop 2 X, take 2 y, drop 2 y)),
      scaler_fit = (\<lambda>X_train. Inr (\<lambda>X. Inr X)),
      knn_fit = (\<lambda>n_neighbors p metric X_train y_train.
          Inr (constant_classifier (int n_neighbors mod 2)))\<rparr>"

text \<open>A regressor that predicts the sum of a sample's features.\<close>

definition sum_regressor :: "(real list list, real list) estimator" where
  "sum_regressor = \<lparr>predict = \<lambda>rows. Inr (map sum_list rows)\<rparr>"

section \<open>Basic facts about runs\<close>

declare str_nat.simps [simp del]

lemma exec_raised: "raised r = Some e \<Longrightarrow> exec plt ss r = r"
  by (cases ss) simp_all

lemma exec_append: "exec plt (a @ b) r = exec plt b (exec plt a r)"
proof (induction a arbitrary: r)
  case Nil
  then show ?case by simp
next
  case (Cons s a)
  then show ?case by (cases "raised r") (simp_all add: exec_raised)
qed

lemma planned_append: "planned (a @ b) = planned a @ planned b"
  by (induction a rule: planned.induct) simp_all

lemma exec_completed:
  "raised (exec plt ss r) = None \<Longrightarrow>
     calls (exec plt ss r) = calls r @ planned ss \<and> \<not> list_ex raises ss
     \<and> list_all (\<lambda>c. plt c = None) (planned ss) \<and> raised r = None"
proof (induction ss arbitrary: r)
  case Nil
  then show ?case by simp
next
  case (Cons s ss)
  show ?case
  proof (cases "raised r")
    case None
    with Cons.prems have fin: "raised (exec plt ss (step plt s r)) = None" by simp
    from Cons.IH [OF fin] show ?thesis using None
      by (cases s) auto
  next
    case (Some e)
    with Cons.prems show ?thesis by simp
  qed
qed



lemma completed_training:
  "raised (exec plt ss r) = None \<Longrightarrow>
     training_scatters (exec plt ss r) = training_scatters r @ planned_training ss"
  by (simp add: exec_completed training_scatters_def planned_training_def)

lemma training_append [simp]:
  "planned_training (a @ b) = planned_training a @ planned_training b"
  by (simp add: planned_training_def planned_append)

lemma training_Nil [simp]: "planned_training [] = []"
  by (simp add: planned_training_def)

lemma training_Call [simp]:
  "planned_training (Call c # ss) = training_scatter c @ planned_training ss"
  by (simp add: planned_training_def)

lemma training_call_with:
  "(\<And>a. training_scatter (f a) = []) \<Longrightarrow>
   planned_training (call_with v f # ss) = planned_training ss"
  by (cases v) (simp_all add: call_with_def planned_training_def)

lemma training_call_with_pair:
  "(\<And>a b. training_scatter (f a b) = []) \<Longrightarrow>
   planned_training (call_with v (\<lambda>(a, b). f a b) # ss) = planned_training ss"
  by (rule training_call_with) (simp add: split_def)

lemma training_classes:
  "length X = length y \<Longrightarrow>
   planned_training (map (scatter_class X y) cmls)
     = map (\<lambda>(c, m, l). (l, rows_with_label X y l)) cmls"
proof (induction cmls)
  case Nil
  then show ?case by simp
next
  case (Cons a cmls)
  obtain c m l where a: "a = (c, m, l)" by (cases a) auto
  have row: "map fst (filter snd (zip X (map (\<lambda>v. v = l) y))) = rows_with_label X y l"
    using Cons.prems unfolding rows_with_label_def
    by (induction X y rule: list_induct2) simp_all
  have "zip (map (fst \<circ> fst) zs) (map (snd \<circ> fst) zs) = map fst zs"
    for zs :: "((real \<times> real) \<times> bool) list"
    by (induction zs) simp_all
  with Cons row a show ?case
    by (simp add: scatter_class_def call_with_def np_mask_def)
qed

lemma classes_no_raise:
  "\<not> list_ex raises (map (scatter_class X y) cmls) \<Longrightarrow> cmls \<noteq> [] \<Longrightarrow> length X = length y"
  by (cases cmls) (auto simp: scatter_class_def call_with_def np_mask_def split: if_splits)

lemma training_scatter_test [simp]: "planned_training (scatter_test X ti) = []"
  by (auto simp: scatter_test_def training_call_with split: option.splits)

lemma training_set_title [simp]: "planned_training (set_title t) = []"
  by (simp add: set_title_def split: option.splits)

lemma zip_labels:
  "map (\<lambda>(c, m, l). f l) (zip colors (zip markers ls)) = map f (take 5 ls)"
proof -
  have "map (\<lambda>(c, m, l). f l) (zip cs (zip ms ls)) = map f (take (min (length cs) (length ms)) ls)"
    for cs ms :: "string list"
  proof (induction cs arbitrary: ms ls)
    case Nil
    then show ?case by simp
  next
    case (Cons c cs)
    then show ?case by (cases ms; cases ls) simp_all
  qed
  from this [of colors markers] show ?thesis
    by (simp add: colors_def markers_def eval_nat_numeral)
qed

lemma training_loop:
  assumes "\<not> list_ex raises (map (scatter_class X y) (zip colors (zip markers (np_unique y))))"
  shows "planned_training (map (scatter_class X y) (zip colors (zip markers (np_unique y))))
           = map (\<lambda>l. (l, rows_with_label X y l)) (take 5 (np_unique y))"
proof (cases "zip colors (zip markers (np_unique y)) = []")
  case True
  then have "take 5 (np_unique y) = []"
    by (simp add: colors_def markers_def)
  with True show ?thesis by simp
next
  case False
  with assms have "length X = length y" by (rule classes_no_raise)
  then show ?thesis by (simp add: training_classes zip_labels)
qed


lemma exec_calls_prefix: "\<exists>k. calls (exec plt ss r) = calls r @ take k (planned ss)"
proof (induction ss arbitrary: r)
  case Nil
  then show ?case by simp
next
  case (Cons s ss)
  show ?case
  proof (cases "raised r")
    case None
    from Cons.IH [of "step plt s r"] obtain k
      where k: "calls (exec plt ss (step plt s r)) = calls (step plt s r) @ take k (planned ss)" ..
    show ?thesis
    proof (cases s)
      case (Call c)
      with k None have "calls (exec plt (s # ss) r) = calls r @ take (Suc k) (planned (s # ss))"
        by simp
      then show ?thesis ..
    next
      case (Raise e)
      with k None have "calls (exec plt (s # ss) r) = calls r @ take k (planned (s # ss))"
        by simp
      then show ?thesis ..
    next
      case (Print l)
      with k None have "calls (exec plt (s # ss) r) = calls r @ take k (planned (s # ss))"
        by simp
      then show ?thesis ..
    qed
  next
    case (Some e)
    then have "calls (exec plt (s # ss) r) = calls r @ take 0 (planned (s # ss))"
      by simp
    then show ?thesis ..
  qed
qed

lemma length_planned: "length (planned ss) \<le> length ss"
  by (induction ss rule: planned.induct) simp_all

lemma exec_length: "length (calls (exec plt ss r)) \<le> length (calls r) + length ss"
proof -
  obtain k where "calls (exec plt ss r) = calls r @ take k (planned ss)"
    using exec_calls_prefix by blast
  then show ?thesis using length_planned [of ss] by simp
qed

lemma exec_stdout: "\<not> list_ex prints ss \<Longrightarrow> stdout (exec plt ss r) = stdout r"
proof (induction ss arbitrary: r)
  case Nil
  then show ?case by simp
next
  case (Cons s ss)
  then show ?case by (cases s; cases "raised r") simp_all
qed

lemma surfaces_returned:
  "list_all (\<lambda>c. plt c = None) (calls r) \<Longrightarrow> raised r = None \<Longrightarrow> surfaces plt r"
  by (cases "calls r" rule: rev_cases) (simp_all add: surfaces_def)

lemma surfaces_raise:
  "list_all (\<lambda>c. plt c = None) (calls r) \<Longrightarrow> \<not> is_plot_error e \<Longrightarrow>
   surfaces plt (r\<lparr>raised := Some e\<rparr>)"
  by (cases "calls r" rule: rev_cases) (simp_all add: surfaces_def)

lemma exec_surfaces:
  assumes "raised r = None" and "list_all (\<lambda>c. plt c = None) (calls r)"
    and "\<forall>e. Raise e \<in> set ss \<longrightarrow> \<not> is_plot_error e"
  shows "surfaces plt (exec plt ss r)"
  using assms
proof (induction ss arbitrary: r)
  case Nil
  then show ?case by (simp add: surfaces_returned)
next
  case (Cons s ss)
  show ?case
  proof (cases s)
    case (Call c)
    show ?thesis
    proof (cases "plt c")
      case None
      with Call Cons.prems Cons.IH [of "step plt s r"] show ?thesis by simp
    next
      case (Some msg)
      with Call Cons.prems show ?thesis
        by (simp add: exec_raised surfaces_def)
    qed
  next
    case (Raise e)
    with Cons.prems have "exec plt (s # ss) r = r\<lparr>raised := Some e\<rparr>"
      by (simp add: exec_raised)
    moreover from Raise Cons.prems(3) have "\<not> is_plot_error e" by simp
    ultimately show ?thesis using Cons.prems(2) by (simp add: surfaces_raise)
  next
    case (Print l)
    with Cons.prems Cons.IH [of "step plt s r"] show ?thesis by simp
  qed
qed

lemma exec_origin:
  assumes "raised r = None" and "raised (exec plt ss r) = Some e" and "\<not> is_plot_error e"
  shows "Raise e \<in> set ss"
  using assms
proof (induction ss arbitrary: r)
  case Nil
  then show ?case by simp
next
  case (Cons s ss)
  show ?case
  proof (cases s)
    case (Call c)
    show ?thesis
    proof (cases "plt c")
      case None
      with Call Cons.prems Cons.IH [of "step plt s r"] show ?thesis by simp
    next
      case (Some msg)
      with Call Cons.prems show ?thesis by (auto simp: exec_raised)
    qed
  next
    case (Raise e')
    with Cons.prems show ?thesis by (simp add: exec_raised)
  next
    case (Print l)
    with Cons.prems Cons.IH [of "step plt s r"] show ?thesis by simp
  qed
qed

lemma exec_surfaces_empty:
  assumes "\<And>e. Raise e \<in> set ss \<Longrightarrow> \<not> is_plot_error e"
  shows "surfaces plt (exec plt ss empty_run)"
  using assms by (intro exec_surfaces) (simp_all add: empty_run_def)


text \<open>The equations that evaluate a run on concrete inputs.\<close>

lemmas run_defs = call_with_def bind_err_def external_def call_predict_def empty_run_def
  quiet_def exact_def Let_def
lemmas np_defs = np_unique_def np_mask_def as_intp_def np_take_def np_min_def np_max_def np_arange_def
  np_meshgrid_def np_reshape_def np_sub_def

section \<open>Training data: one scatter call per class\<close>

lemma features_training:
  assumes "raised (plot_features plt X y ti xl yl t loc empty_run) = None"
  shows "training_scatters (plot_features plt X y ti xl yl t loc empty_run)
           = map (\<lambda>l. (l, rows_with_label X y l)) (take 5 (np_unique y))"
proof -
  from exec_completed [OF assms [unfolded plot_features_def]]
  have "\<not> list_ex raises (map (scatter_class X y) (zip colors (zip markers (np_unique y))))"
    by simp
  then show ?thesis
    using completed_training [OF assms [unfolded plot_features_def]]
    by (simp add: plot_features_def training_loop training_scatters_def empty_run_def)
qed

lemma regions_training:
  assumes "raised (plot_decision_regions fl plt X y clf ti res xl yl t loc empty_run) = None"
  shows "training_scatters (plot_decision_regions fl plt X y clf ti res xl yl t loc empty_run)
           = map (\<lambda>l. (l, rows_with_label X y l)) (take 5 (np_unique y))"
proof (cases "grid fl X res")
  case (Inl e)
  with assms show ?thesis
    by (simp add: plot_decision_regions_def empty_run_def)
next
  case (Inr g)
  obtain x1 x2 where g: "g = (x1, x2)" by (cases g) auto
  note fin = assms [unfolded plot_decision_regions_def Inr g sum.case prod.case]
  from exec_completed [OF fin]
  have "\<not> list_ex raises (map (scatter_class X y) (zip colors (zip markers (np_unique y))))"
    by simp
  then show ?thesis
    using completed_training [OF fin] Inr g
    by (simp add: plot_decision_regions_def training_loop training_scatters_def empty_run_def
        training_call_with split: prod.splits)
qed


text \<open>
  C1, as the code has it.  The loop zips the unique labels with five colours and
  five markers, so it runs for the first five unique labels in ascending order
  (for all of them when there are at most five).  Whenever \<open>plot_features\<close> or
  \<open>plot_decision_regions\<close> returns normally, its training-data scatter calls are
  one per such label, in that order, each drawing exactly the rows of \<open>X\<close> whose
  entry in \<open>y\<close> equals the label.
\<close>

theorem training_scatter_per_label:
  "(raised (plot_features plt X y ti xl yl t loc empty_run) = None \<longrightarrow>
      training_scatters (plot_features plt X y ti xl yl t loc empty_run)
        = map (\<lambda>l. (l, rows_with_label X y l)) (take 5 (np_unique y)))
   \<and> (raised (plot_decision_regions fl plt X y clf ti res xl yl t loc empty_run) = None \<longrightarrow>
      training_scatters (plot_decision_regions fl plt X y clf ti res xl yl t loc empty_run)
        = map (\<lambda>l. (l, rows_with_label X y l)) (take 5 (np_unique y)))"
  using features_training regions_training by blast

text \<open>
  The claim as written, one call per unique label, fails with six classes: the
  run completes, labels 0 to 4 are drawn and label 5 is not.
\<close>

theorem training_scatter_six_labels:
  "raised (plot_features quiet [(0, 0), (1, 0), (2, 0), (3, 0), (4, 0), (5, 0)] [0, 1, 2, 3, 4, 5]
            None ''x'' ''y'' None ''best'' empty_run) = None
   \<and> map fst (training_scatters
        (plot_features quiet [(0, 0), (1, 0), (2, 0), (3, 0), (4, 0), (5, 0)] [0, 1, 2, 3, 4, 5]
            None ''x'' ''y'' None ''best'' empty_run)) = [0, 1, 2, 3, 4]
   \<and> np_unique [0, 1, 2, 3, 4, 5] = [0, 1, 2, 3, 4, 5]"
  by (simp add: plot_features_def scatter_class_def call_with_def np_mask_def np_unique_def
      colors_def markers_def scatter_test_def set_title_def empty_run_def quiet_def
      training_scatters_def)

text \<open>An instance with two classes and an overlay, on both helpers.\<close>

lemma features_example_completes: "raised (plot_features quiet [(0, 0), (1, 1), (2, 2)] [1, 0, 1] (Some [2]) ''x'' ''y'' None
             ''best'' empty_run) = None"
  by (simp add: plot_features_def scatter_class_def scatter_test_def set_title_def colors_def
        markers_def run_defs np_defs)

lemma regions_example_completes: "raised (plot_decision_regions exact quiet [(0, 0), (1, 1), (2, 2)] [1, 0, 1]
             (constant_classifier 0) (Some [2]) 1 ''x'' ''y'' None ''best'' empty_run) = None"
  by (simp add: plot_decision_regions_def grid_def predict_grid_def min_max_def ncols_def
        constant_classifier_def scatter_class_def scatter_test_def set_title_def colors_def
        markers_def run_defs np_defs upt_conv_Cons)

theorem training_scatter_per_label_witness:
  "training_scatters (plot_features quiet [(0, 0), (1, 1), (2, 2)] [1, 0, 1] (Some [2]) ''x'' ''y'' None
      ''best'' empty_run) = [(0, [(1, 1)]), (1, [(0, 0), (2, 2)])]
   \<and> training_scatters (plot_decision_regions exact quiet [(0, 0), (1, 1), (2, 2)] [1, 0, 1]
       (constant_classifier 0) (Some [2]) 1 ''x'' ''y'' None ''best'' empty_run)
        = [(0, [(1, 1)]), (1, [(0, 0), (2, 2)])]"
proof -
  have rows: "map (\<lambda>l. (l, rows_with_label [(0, 0), (1, 1), (2, 2)] [1, 0, 1] l))
      (take 5 (np_unique [1, 0, 1])) = [(0, [(1, 1)]), (1, [(0, 0), (2, 2)])]"
    by (simp add: rows_with_label_def np_unique_def)
  from training_scatter_per_label
    [of quiet "[(0, 0), (1, 1), (2, 2)]" "[1, 0, 1]" "Some [2]" "''x''" "''y''" None "''best''"
        exact "constant_classifier 0" 1]
    features_example_completes regions_example_completes rows
  show ?thesis by simp
qed


section \<open>The bodies of the four helpers\<close>

text \<open>
  Each helper runs one list of statements, which its arguments determine; the
  plotting backend and the run it starts from do not enter it.
\<close>

lemma prints_call_with [simp]: "\<not> prints (call_with v f)"
  by (cases v) (simp_all add: call_with_def)

lemma prints_classes [simp]: "\<not> list_ex prints (map (scatter_class X y) cmls)"
  by (induction cmls) (auto simp: scatter_class_def)

lemma prints_scatter_test [simp]: "\<not> list_ex prints (scatter_test X ti)"
  by (simp add: scatter_test_def split: option.splits)

lemma prints_scatter_test_data [simp]: "\<not> list_ex prints (scatter_test_data xs ys ti m)"
  by (simp add: scatter_test_data_def split: option.splits)

lemma prints_set_title [simp]: "\<not> list_ex prints (set_title t)"
  by (simp add: set_title_def split: option.splits)

lemma prints_legend [simp]: "\<not> list_ex prints (legend_if_given ti loc)"
  by (simp add: legend_if_given_def split: option.splits)

lemma length_classes: "length (zip colors (zip markers ls)) \<le> 5"
  by (simp add: colors_def markers_def)

lemma length_training_classes:
  "length (planned_training (map (scatter_class X y) cmls)) \<le> length cmls"
proof (induction cmls)
  case Nil
  then show ?case by simp
next
  case (Cons a cmls)
  obtain c m l where a: "a = (c, m, l)" by (cases a) auto
  show ?case
  proof (cases "length y = length X")
    case True
    with Cons a show ?thesis
      by (simp add: scatter_class_def call_with_def np_mask_def)
  next
    case False
    then have "scatter_class X y a = Raise IndexError"
      using a by (simp add: scatter_class_def call_with_def np_mask_def)
    with Cons show ?thesis by (simp add: planned_training_def)
  qed
qed

lemma training_loop_bound:
  "length (planned_training (map (scatter_class X y) (zip colors (zip markers ls)))) \<le> 5"
  using length_training_classes [of X y "zip colors (zip markers ls)"] length_classes [of ls]
  by (rule order_trans)

lemma training_scatter_test_data [simp]: "planned_training (scatter_test_data xs ys ti m) = []"
  by (auto simp: scatter_test_data_def call_with_def planned_training_def
      split: option.splits sum.splits)

lemma training_legend [simp]: "planned_training (legend_if_given ti loc) = []"
  by (simp add: legend_if_given_def split: option.splits)

lemma length_scatter_test: "length (scatter_test X ti) \<le> 1"
  by (simp add: scatter_test_def split: option.splits)

lemma length_scatter_test_data: "length (scatter_test_data xs ys ti m) \<le> 1"
  by (simp add: scatter_test_data_def split: option.splits)

lemma length_set_title: "length (set_title t) \<le> 1"
  by (simp add: set_title_def split: option.splits)

lemma length_legend: "length (legend_if_given ti loc) \<le> 1"
  by (simp add: legend_if_given_def split: option.splits)

lemma features_body:
  "\<exists>ss. (\<forall>plt. plot_features plt X y ti xl yl t loc = exec plt ss) \<and> body 11 ss"
proof -
  let ?ss = "map (scatter_class X y) (zip colors (zip markers (np_unique y)))
        @ scatter_test X ti @ [Call (Xlabel xl), Call (Ylabel yl)] @ set_title t
        @ [Call (Legend loc), Call Show]"
  have "\<forall>plt. plot_features plt X y ti xl yl t loc = exec plt ?ss"
    by (simp add: plot_features_def)
  moreover have "body 11 ?ss"
    using length_classes [of "np_unique y"] length_scatter_test [of X ti] length_set_title [of t]
      training_loop_bound [of X y "np_unique y"]
    by (simp add: body_def)
  ultimately show ?thesis by blast
qed

lemma regions_body:
  "\<exists>ss. (\<forall>plt. plot_decision_regions fl plt X y clf ti res xl yl t loc = exec plt ss) \<and> body 14 ss"
proof (cases "grid fl X res")
  case (Inl e)
  then have "\<forall>plt. plot_decision_regions fl plt X y clf ti res xl yl t loc = exec plt [Raise e]"
    by (simp add: plot_decision_regions_def)
  moreover have "body 14 [Raise e]" by (simp add: body_def planned_training_def)
  ultimately show ?thesis by blast
next
  case (Inr g)
  obtain x1 x2 where g: "g = (x1, x2)" by (cases g) auto
  let ?ss = "[call_with (predict_grid clf x1 x2)
               (\<lambda>z. Contourf x1 x2 z 0.3 (take (length (np_unique y)) colors))]
            @ map (scatter_class X y) (zip colors (zip markers (np_unique y)))
            @ scatter_test X ti
            @ [call_with (min_max x1) (\<lambda>(lo, hi). Xlim lo hi),
               call_with (min_max x2) (\<lambda>(lo, hi). Ylim lo hi),
               Call (Xlabel xl), Call (Ylabel yl)]
            @ set_title t
            @ [Call (Legend loc), Call Show]"
  have "\<forall>plt. plot_decision_regions fl plt X y clf ti res xl yl t loc = exec plt ?ss"
    using Inr g by (simp add: plot_decision_regions_def)
  moreover have "body 14 ?ss"
    using length_classes [of "np_unique y"] length_scatter_test [of X ti] length_set_title [of t]
      training_loop_bound [of X y "np_unique y"]
    by (simp add: body_def training_call_with training_call_with_pair)
  ultimately show ?thesis by blast
qed

lemma predictions_body:
  "\<exists>ss. (\<forall>plt. plot_predictions plt x y reg ti xl yl t loc = exec plt ss) \<and> body 8 ss"
proof -
  let ?ss = "[call_with (call_predict reg (map (\<lambda>v. [v]) x)) (\<lambda>p. Plot x p ''black'' 1),
         Call (Scatter \<lparr>sc_x = x, sc_y = y, sc_alpha = None, sc_c = ''steelblue'',
           sc_marker = None, sc_edgecolor = ''white'', sc_linewidth = None, sc_s = Some 70,
           sc_label = Txt ''training data''\<rparr>)]
        @ scatter_test_data x y ti 100
        @ [Call (Xlabel xl), Call (Ylabel yl)]
        @ set_title t
        @ legend_if_given ti loc
        @ [Call Show]"
  have "\<forall>plt. plot_predictions plt x y reg ti xl yl t loc = exec plt ?ss"
    by (simp add: plot_predictions_def)
  moreover have "body 8 ?ss"
    using length_scatter_test_data [of x y ti 100] length_set_title [of t] length_legend [of ti loc]
    by (simp add: body_def training_call_with)
  ultimately show ?thesis by blast
qed

lemma residuals_body:
  "\<exists>ss. (\<forall>plt. plot_residuals plt X y reg ti xl yl t loc = exec plt ss) \<and> body 8 ss"
proof (cases "residuals reg X y")
  case (Inl e)
  then have "\<forall>plt. plot_residuals plt X y reg ti xl yl t loc = exec plt [Raise e]"
    by (simp add: plot_residuals_def)
  moreover have "body 8 [Raise e]" by (simp add: body_def planned_training_def)
  ultimately show ?thesis by blast
next
  case (Inr g)
  obtain sx sy where g: "g = (sx, sy)" by (cases g) auto
  let ?ss = "[Call (Scatter \<lparr>sc_x = sx, sc_y = sy, sc_alpha = None,
               sc_c = ''steelblue'', sc_marker = Some ''o'', sc_edgecolor = ''white'',
               sc_linewidth = None, sc_s = None, sc_label = Txt ''training data''\<rparr>)]
            @ scatter_test_data sx sy ti 75
            @ [Call (Hlines 0 (-10) 50 ''black'' 1),
               Call (Xlabel xl), Call (Ylabel yl)]
            @ set_title t
            @ legend_if_given ti loc
            @ [Call Show]"
  have "\<forall>plt. plot_residuals plt X y reg ti xl yl t loc = exec plt ?ss"
    using Inr g by (simp add: plot_residuals_def)
  moreover have "body 8 ?ss"
    using length_scatter_test_data [of sx sy ti 75] length_set_title [of t] length_legend [of ti loc]
    by (simp add: body_def)
  ultimately show ?thesis by blast
qed


lemma body_bound:
  assumes "body n ss"
  shows "length (calls (exec plt ss empty_run)) \<le> n"
proof -
  have "length (calls (exec plt ss empty_run)) \<le> length (calls empty_run) + length ss"
    by (rule exec_length)
  with assms show ?thesis by (simp add: body_def empty_run_def)
qed

lemma body_shows:
  assumes "body n ss" and "raised (exec plt ss empty_run) = None"
  shows "calls (exec plt ss empty_run) \<noteq> [] \<and> last (calls (exec plt ss empty_run)) = Show"
proof -
  from exec_completed [OF assms(2)]
  have c: "calls (exec plt ss empty_run) = planned ss" and nr: "\<not> list_ex raises ss"
    by (simp_all add: empty_run_def)
  with assms(1) have "ss \<noteq> []" and "last ss = Call Show" by (simp_all add: body_def)
  then have "ss = butlast ss @ [Call Show]" by (metis append_butlast_last_id)
  then have "planned ss = planned (butlast ss) @ [Show]"
    by (metis planned_append planned.simps(1,2))
  with c show ?thesis by simp
qed

lemma body_silent: "body n ss \<Longrightarrow> stdout (exec plt ss empty_run) = []"
  by (simp add: body_def exec_stdout empty_run_def)

lemma body_prefix: "\<exists>k. calls (exec plt ss empty_run) = take k (planned ss)"
  using exec_calls_prefix [of plt ss empty_run] by (simp add: empty_run_def)

lemma length_training_take:
  "length (concat (map training_scatter (take k cs))) \<le> length (concat (map training_scatter cs))"
proof -
  have "concat (map training_scatter cs)
      = concat (map training_scatter (take k cs)) @ concat (map training_scatter (drop k cs))"
    by (metis append_take_drop_id concat_append map_append)
  then show ?thesis by simp
qed

lemma body_training:
  assumes "body n ss"
  shows "length (training_scatters (exec plt ss empty_run)) \<le> 5"
proof -
  obtain k where "calls (exec plt ss empty_run) = take k (planned ss)"
    using body_prefix by blast
  then have "length (training_scatters (exec plt ss empty_run)) \<le> length (planned_training ss)"
    by (simp add: training_scatters_def planned_training_def length_training_take)
  with assms show ?thesis by (simp add: body_def)
qed

section \<open>Single pass, bounded work\<close>

text \<open>
  C6.  Every helper is a total function of its arguments that makes a bounded
  number of plotting calls, whatever the input and whatever the plotting library
  does: at most 11, 14, 8 and 8 calls, of which at most five are training-data
  scatter calls (the one loop, over the zipped colours, markers and labels).  A
  run either raises or runs to its end: when nothing raised, the last call made
  is \<^verbatim>\<open>plt.show()\<close>.
\<close>

theorem helpers_single_pass:
  "length (calls (plot_features plt X y ti xl yl t loc empty_run)) \<le> 11
   \<and> length (calls (plot_decision_regions fl plt X y clf ti res xl yl t loc empty_run)) \<le> 14
   \<and> length (calls (plot_predictions plt x y' reg ti xl yl t loc empty_run)) \<le> 8
   \<and> length (calls (plot_residuals plt X' y' reg ti xl yl t loc empty_run)) \<le> 8
   \<and> length (training_scatters (plot_features plt X y ti xl yl t loc empty_run)) \<le> 5
   \<and> length (training_scatters
        (plot_decision_regions fl plt X y clf ti res xl yl t loc empty_run)) \<le> 5
   \<and> (raised (plot_features plt X y ti xl yl t loc empty_run) = None \<longrightarrow>
        calls (plot_features plt X y ti xl yl t loc empty_run) \<noteq> []
        \<and> last (calls (plot_features plt X y ti xl yl t loc empty_run)) = Show)
   \<and> (raised (plot_decision_regions fl plt X y clf ti res xl yl t loc empty_run) = None \<longrightarrow>
        calls (plot_decision_regions fl plt X y clf ti res xl yl t loc empty_run) \<noteq> []
        \<and> last (calls (plot_decision_regions fl plt X y clf ti res xl yl t loc empty_run)) = Show)
   \<and> (raised (plot_predictions plt x y' reg ti xl yl t loc empty_run) = None \<longrightarrow>
        calls (plot_predictions plt x y' reg ti xl yl t loc empty_run) \<noteq> []
        \<and> last (calls (plot_predictions plt x y' reg ti xl yl t loc empty_run)) = Show)
   \<and> (raised (plot_residuals plt X' y' reg ti xl yl t loc empty_run) = None \<longrightarrow>
        calls (plot_residuals plt X' y' reg ti xl yl t loc empty_run) \<noteq> []
        \<and> last (calls (plot_residuals plt X' y' reg ti xl yl t loc empty_run)) = Show)"
proof -
  obtain s1 where s1: "\<And>plt. plot_features plt X y ti xl yl t loc = exec plt s1" "body 11 s1"
    using features_body [of X y ti xl yl t loc] by blast
  obtain s2 where s2: "\<And>plt. plot_decision_regions fl plt X y clf ti res xl yl t loc = exec plt s2"
      "body 14 s2"
    using regions_body [of fl X y clf ti res xl yl t loc] by blast
  obtain s3 where s3: "\<And>plt. plot_predictions plt x y' reg ti xl yl t loc = exec plt s3" "body 8 s3"
    using predictions_body [of x y' reg ti xl yl t loc] by blast
  obtain s4 where s4: "\<And>plt. plot_residuals plt X' y' reg ti xl yl t loc = exec plt s4" "body 8 s4"
    using residuals_body [of X' y' reg ti xl yl t loc] by blast
  show ?thesis
    unfolding s1(1) s2(1) s3(1) s4(1)
    using body_bound [OF s1(2)] body_bound [OF s2(2)] body_bound [OF s3(2)] body_bound [OF s4(2)]
      body_shows [OF s1(2)] body_shows [OF s2(2)] body_shows [OF s3(2)] body_shows [OF s4(2)]
      body_training [OF s1(2)] body_training [OF s2(2)]
    by blast
qed

section \<open>Exceptions\<close>

lemma exec_quiet:
  "\<not> list_ex raises ss \<Longrightarrow> raised r = None \<Longrightarrow> raised (exec quiet ss r) = None"
proof (induction ss arbitrary: r)
  case Nil
  then show ?case by simp
next
  case (Cons s ss)
  then show ?case by (cases s) (simp_all add: quiet_def)
qed

lemma raises_call_with: "raises (call_with v f) \<longleftrightarrow> (\<exists>e. v = Inl e)"
  by (cases v) (simp_all add: call_with_def)

lemma classes_never_raise:
  "length X = length y \<Longrightarrow> \<not> list_ex raises (map (scatter_class X y) cmls)"
  by (induction cmls) (auto simp: scatter_class_def raises_call_with np_mask_def)

lemma exec_raise_after:
  assumes "raised r = None" and "\<not> list_ex raises ss"
    and "list_all (\<lambda>c. plt c = None) (planned ss)"
  shows "raised (exec plt (ss @ Raise e # rest) r) = Some e"
  using assms
proof (induction ss arbitrary: r)
  case Nil
  then show ?case by (simp add: exec_raised)
next
  case (Cons s ss)
  then show ?case by (cases s) simp_all
qed

lemma raise_call_with: "Raise e = call_with v f \<longleftrightarrow> v = Inl e"
  by (cases v) (auto simp: call_with_def)

lemma raise_set_title: "Raise e \<notin> set (set_title t)"
  by (simp add: set_title_def split: option.splits)

lemma raise_legend: "Raise e \<notin> set (legend_if_given ti loc)"
  by (simp add: legend_if_given_def split: option.splits)

lemma raise_classes:
  assumes "Raise e \<in> set (map (scatter_class X y) (zip colors (zip markers (np_unique y))))"
  shows "features_library_error X y ti e"
proof -
  from assms obtain c m l where in_zip: "(c, m, l) \<in> set (zip colors (zip markers (np_unique y)))"
    and e: "np_mask X (map (\<lambda>v. v = l) y) = Inl e"
    by (auto simp: scatter_class_def raise_call_with)
  have "map (\<lambda>(c, m, l). l) (zip colors (zip markers (np_unique y))) = map (\<lambda>l. l) (take 5 (np_unique y))"
    by (rule zip_labels)
  then have "set (take 5 (np_unique y)) = (\<lambda>(c, m, l). l) ` set (zip colors (zip markers (np_unique y)))"
    by (metis list.map_ident set_map)
  with in_zip have "l \<in> set (take 5 (np_unique y))" by force
  with e show ?thesis by (auto simp: features_library_error_def list_ex_iff)
qed

lemma raise_scatter_test:
  "Raise e \<in> set (scatter_test X ti) \<Longrightarrow> features_library_error X y ti e"
  by (auto simp: scatter_test_def features_library_error_def raise_call_with
      split: option.splits if_splits)

lemma raise_scatter_test_data:
  "Raise e \<in> set (scatter_test_data xs ys ti m) \<Longrightarrow> overlay_library_error xs ys ti e"
  by (auto simp: scatter_test_data_def overlay_library_error_def raise_call_with bind_err_def
      split: option.splits if_splits sum.splits)

lemma mask_error: "np_mask xs m = Inl e \<Longrightarrow> \<not> is_plot_error e"
  by (auto simp: np_mask_def split: if_splits)

lemma take_error: "np_take xs idx = Inl e \<Longrightarrow> \<not> is_plot_error e"
  by (auto simp: np_take_def as_intp_def bind_err_def Let_def split: if_splits)

lemma min_error: "np_min xs = Inl e \<Longrightarrow> \<not> is_plot_error e"
  by (auto simp: np_min_def split: list.splits)

lemma max_error: "np_max xs = Inl e \<Longrightarrow> \<not> is_plot_error e"
  by (auto simp: np_max_def split: list.splits)

lemma arange_error: "np_arange fl a b s = Inl e \<Longrightarrow> \<not> is_plot_error e"
  by (auto simp: np_arange_def Let_def split: if_splits)

lemma min_max_error: "min_max a = Inl e \<Longrightarrow> \<not> is_plot_error e"
  by (auto simp: min_max_def bind_err_def min_error max_error split: sum.splits)

lemma grid_error: "grid fl X res = Inl e \<Longrightarrow> \<not> is_plot_error e"
  by (auto simp: grid_def bind_err_def min_error max_error arange_error split: sum.splits)

lemma predict_error: "call_predict est a = Inl e \<Longrightarrow> \<not> is_plot_error e"
  by (auto simp: call_predict_def external_def split: sum.splits)

lemma predict_grid_error: "predict_grid clf x1 x2 = Inl e \<Longrightarrow> \<not> is_plot_error e"
  by (auto simp: predict_grid_def bind_err_def np_reshape_def predict_error
      split: sum.splits if_splits)

lemma residuals_error: "residuals reg X y = Inl e \<Longrightarrow> \<not> is_plot_error e"
  by (auto simp: residuals_def bind_err_def np_sub_def predict_error split: sum.splits if_splits)

lemma features_library_error_plain: "features_library_error X y ti e \<Longrightarrow> \<not> is_plot_error e"
  by (auto simp: features_library_error_def list_ex_iff mask_error take_error split: option.splits)

lemma overlay_library_error_plain: "overlay_library_error xs ys ti e \<Longrightarrow> \<not> is_plot_error e"
  by (auto simp: overlay_library_error_def take_error split: option.splits)

lemma regions_library_error_plain:
  "regions_library_error fl X y clf ti res e \<Longrightarrow> \<not> is_plot_error e"
  by (auto simp: regions_library_error_def grid_error predict_grid_error min_max_error
      features_library_error_plain split: sum.splits prod.splits)

lemma predictions_library_error_plain:
  "predictions_library_error x y reg ti e \<Longrightarrow> \<not> is_plot_error e"
  by (auto simp: predictions_library_error_def predict_error overlay_library_error_plain)

lemma residuals_library_error_plain:
  "residuals_library_error X y reg ti e \<Longrightarrow> \<not> is_plot_error e"
  by (auto simp: residuals_library_error_def residuals_error overlay_library_error_plain
      split: sum.splits prod.splits)

lemma features_raises:
  assumes "Raise e \<in> set (map (scatter_class X y) (zip colors (zip markers (np_unique y)))
        @ scatter_test X ti @ [Call (Xlabel xl), Call (Ylabel yl)] @ set_title t
        @ [Call (Legend loc), Call Show])"
  shows "features_library_error X y ti e"
  using assms raise_classes [of e X y ti] raise_scatter_test [of e X ti y]
  by (auto simp: raise_set_title)

lemma features_surfaces: "surfaces plt (plot_features plt X y ti xl yl t loc empty_run)"
  unfolding plot_features_def
  by (rule exec_surfaces_empty) (blast dest: features_raises features_library_error_plain)

lemma features_origin:
  assumes "raised (plot_features plt X y ti xl yl t loc empty_run) = Some e"
    and "\<not> is_plot_error e"
  shows "features_library_error X y ti e"
proof -
  have "raised empty_run = None" by (simp add: empty_run_def)
  from exec_origin [OF this assms(1) [unfolded plot_features_def] assms(2)]
  show ?thesis by (rule features_raises)
qed

lemma regions_raises:
  assumes "Raise e \<in> set (case grid fl X res of
          Inl e \<Rightarrow> [Raise e]
        | Inr (x1, x2) \<Rightarrow>
            [call_with (predict_grid clf x1 x2)
               (\<lambda>z. Contourf x1 x2 z 0.3 (take (length (np_unique y)) colors))]
            @ map (scatter_class X y) (zip colors (zip markers (np_unique y)))
            @ scatter_test X ti
            @ [call_with (min_max x1) (\<lambda>(lo, hi). Xlim lo hi),
               call_with (min_max x2) (\<lambda>(lo, hi). Ylim lo hi),
               Call (Xlabel xl), Call (Ylabel yl)]
            @ set_title t
            @ [Call (Legend loc), Call Show])"
  shows "regions_library_error fl X y clf ti res e"
proof (cases "grid fl X res")
  case (Inl e')
  with assms show ?thesis by (simp add: regions_library_error_def)
next
  case (Inr g)
  obtain x1 x2 where g: "g = (x1, x2)" by (cases g) auto
  from assms raise_classes [of e X y ti] raise_scatter_test [of e X ti y]
  show ?thesis
    unfolding Inr g regions_library_error_def sum.case prod.case
    by (auto simp: raise_set_title raise_call_with)
qed

lemma regions_surfaces:
  "surfaces plt (plot_decision_regions fl plt X y clf ti res xl yl t loc empty_run)"
  unfolding plot_decision_regions_def
  by (rule exec_surfaces_empty) (blast dest: regions_raises regions_library_error_plain)

lemma regions_origin:
  assumes "raised (plot_decision_regions fl plt X y clf ti res xl yl t loc empty_run) = Some e"
    and "\<not> is_plot_error e"
  shows "regions_library_error fl X y clf ti res e"
proof -
  have "raised empty_run = None" by (simp add: empty_run_def)
  from exec_origin [OF this assms(1) [unfolded plot_decision_regions_def] assms(2)]
  show ?thesis by (rule regions_raises)
qed

lemma predictions_raises:
  assumes "Raise e \<in> set ([call_with (call_predict reg (map (\<lambda>v. [v]) x)) (\<lambda>p. Plot x p ''black'' 1),
         Call (Scatter \<lparr>sc_x = x, sc_y = y, sc_alpha = None, sc_c = ''steelblue'',
           sc_marker = None, sc_edgecolor = ''white'', sc_linewidth = None, sc_s = Some 70,
           sc_label = Txt ''training data''\<rparr>)]
        @ scatter_test_data x y ti 100
        @ [Call (Xlabel xl), Call (Ylabel yl)]
        @ set_title t
        @ legend_if_given ti loc
        @ [Call Show])"
  shows "predictions_library_error x y reg ti e"
  using assms raise_scatter_test_data [of e x y ti 100]
  by (auto simp: predictions_library_error_def raise_set_title raise_legend raise_call_with)

lemma predictions_surfaces: "surfaces plt (plot_predictions plt x y reg ti xl yl t loc empty_run)"
  unfolding plot_predictions_def
  by (rule exec_surfaces_empty) (blast dest: predictions_raises predictions_library_error_plain)

lemma predictions_origin:
  assumes "raised (plot_predictions plt x y reg ti xl yl t loc empty_run) = Some e"
    and "\<not> is_plot_error e"
  shows "predictions_library_error x y reg ti e"
proof -
  have "raised empty_run = None" by (simp add: empty_run_def)
  from exec_origin [OF this assms(1) [unfolded plot_predictions_def] assms(2)]
  show ?thesis by (rule predictions_raises)
qed

lemma residuals_raises:
  assumes "Raise e \<in> set (case residuals reg X y of
          Inl e \<Rightarrow> [Raise e]
        | Inr (scatter_x, scatter_y) \<Rightarrow>
            [Call (Scatter \<lparr>sc_x = scatter_x, sc_y = scatter_y, sc_alpha = None,
               sc_c = ''steelblue'', sc_marker = Some ''o'', sc_edgecolor = ''white'',
               sc_linewidth = None, sc_s = None, sc_label = Txt ''training data''\<rparr>)]
            @ scatter_test_data scatter_x scatter_y ti 75
            @ [Call (Hlines 0 (-10) 50 ''black'' 1),
               Call (Xlabel xl), Call (Ylabel yl)]
            @ set_title t
            @ legend_if_given ti loc
            @ [Call Show])"
  shows "residuals_library_error X y reg ti e"
proof (cases "residuals reg X y")
  case (Inl e')
  with assms show ?thesis by (simp add: residuals_library_error_def)
next
  case (Inr g)
  obtain sx sy where g: "g = (sx, sy)" by (cases g) auto
  from assms raise_scatter_test_data [of e sx sy ti 75]
  show ?thesis
    unfolding Inr g residuals_library_error_def sum.case prod.case
    by (auto simp: raise_set_title raise_legend)
qed

lemma residuals_surfaces: "surfaces plt (plot_residuals plt X y reg ti xl yl t loc empty_run)"
  unfolding plot_residuals_def
  by (rule exec_surfaces_empty) (blast dest: residuals_raises residuals_library_error_plain)

lemma residuals_origin:
  assumes "raised (plot_residuals plt X y reg ti xl yl t loc empty_run) = Some e"
    and "\<not> is_plot_error e"
  shows "residuals_library_error X y reg ti e"
proof -
  have "raised empty_run = None" by (simp add: empty_run_def)
  from exec_origin [OF this assms(1) [unfolded plot_residuals_def] assms(2)]
  show ?thesis by (rule residuals_raises)
qed


section \<open>The estimator's contract\<close>

text \<open>
  C5.  Of the classifier or regressor it is given, a helper uses the \<^verbatim>\<open>predict\<close>
  method and nothing else, called on one array: the grid points in
  \<open>plot_decision_regions\<close>, the samples as a column in \<open>plot_predictions\<close>, \<open>X\<close>
  in \<open>plot_residuals\<close>.  Two objects, of any two classes, whose \<^verbatim>\<open>predict\<close>
  agrees on that array give the same run; so an object that has \<^verbatim>\<open>predict\<close> and
  nothing more serves as well as any.
\<close>

theorem predict_only:
  fixes clf :: "((real \<times> real) list, int list, 'z) estimator_scheme"
    and clf' :: "((real \<times> real) list, int list, 'w) estimator_scheme"
    and reg :: "(real list list, real list, 'z) estimator_scheme"
    and reg' :: "(real list list, real list, 'w) estimator_scheme"
  shows
  "((\<forall>x1 x2. grid fl X res = Inr (x1, x2) \<longrightarrow>
        predict clf (zip (concat x1) (concat x2)) = predict clf' (zip (concat x1) (concat x2))) \<longrightarrow>
      plot_decision_regions fl plt X y clf ti res xl yl t loc
        = plot_decision_regions fl plt X y clf' ti res xl yl t loc)
   \<and> (predict reg (map (\<lambda>v. [v]) x) = predict reg' (map (\<lambda>v. [v]) x) \<longrightarrow>
      plot_predictions plt x y' reg ti xl yl t loc = plot_predictions plt x y' reg' ti xl yl t loc)
   \<and> (predict reg X' = predict reg' X' \<longrightarrow>
      plot_residuals plt X' y' reg ti xl yl t loc = plot_residuals plt X' y' reg' ti xl yl t loc)"
proof -
  have "plot_decision_regions fl plt X y clf ti res xl yl t loc
        = plot_decision_regions fl plt X y clf' ti res xl yl t loc"
    if "\<forall>x1 x2. grid fl X res = Inr (x1, x2) \<longrightarrow>
        predict clf (zip (concat x1) (concat x2)) = predict clf' (zip (concat x1) (concat x2))"
    using that
    by (cases "grid fl X res")
      (auto simp: plot_decision_regions_def predict_grid_def call_predict_def)
  moreover have "plot_predictions plt x y' reg ti xl yl t loc
      = plot_predictions plt x y' reg' ti xl yl t loc"
    if "predict reg (map (\<lambda>v. [v]) x) = predict reg' (map (\<lambda>v. [v]) x)"
    using that by (simp add: plot_predictions_def call_predict_def)
  moreover have "plot_residuals plt X' y' reg ti xl yl t loc
      = plot_residuals plt X' y' reg' ti xl yl t loc"
    if "predict reg X' = predict reg' X'"
    using that by (simp add: plot_residuals_def residuals_def call_predict_def)
  ultimately show ?thesis by blast
qed

section \<open>Instances on concrete inputs\<close>

text \<open>Runs of the two regression helpers that complete.\<close>

lemma predictions_example_completes:
  "raised (plot_predictions quiet [0, 1, 2] [1, 3, 2] sum_regressor (Some [2]) ''x'' ''y'' None
     ''best'' empty_run) = None"
  by (simp add: plot_predictions_def scatter_test_data_def set_title_def legend_if_given_def
      sum_regressor_def run_defs np_defs)

lemma residuals_example_completes:
  "raised (plot_residuals quiet [[0], [1], [2]] [1, 3, 2] sum_regressor (Some [2])
     ''predicted values'' ''residuals'' None ''best'' empty_run) = None"
  by (simp add: plot_residuals_def residuals_def scatter_test_data_def set_title_def
      legend_if_given_def sum_regressor_def run_defs np_defs)

text \<open>C6 on four runs that complete: each ends with \<^verbatim>\<open>plt.show()\<close>.\<close>

theorem helpers_single_pass_witness:
  "length (calls (plot_features quiet [(0, 0), (1, 1), (2, 2)] [1, 0, 1] (Some [2]) ''x'' ''y''
      None ''best'' empty_run)) \<le> 11
   \<and> last (calls (plot_features quiet [(0, 0), (1, 1), (2, 2)] [1, 0, 1] (Some [2]) ''x'' ''y''
      None ''best'' empty_run)) = Show
   \<and> last (calls (plot_decision_regions exact quiet [(0, 0), (1, 1), (2, 2)] [1, 0, 1]
      (constant_classifier 0) (Some [2]) 1 ''x'' ''y'' None ''best'' empty_run)) = Show
   \<and> last (calls (plot_predictions quiet [0, 1, 2] [1, 3, 2] sum_regressor (Some [2]) ''x'' ''y''
      None ''best'' empty_run)) = Show
   \<and> last (calls (plot_residuals quiet [[0], [1], [2]] [1, 3, 2] sum_regressor (Some [2])
     ''predicted values'' ''residuals'' None ''best'' empty_run)) = Show"
  using helpers_single_pass [of quiet "[(0, 0), (1, 1), (2, 2)]" "[1, 0, 1]" "Some [2]" "''x''"
      "''y''" None "''best''" exact "constant_classifier 0" 1 "[0, 1, 2]" "[1, 3, 2]" sum_regressor
      "[[0], [1], [2]]"]
    helpers_single_pass [of quiet "[(0, 0), (1, 1), (2, 2)]" "[1, 0, 1]" "Some [2]"
      "''predicted values''" "''residuals''" None "''best''" exact "constant_classifier 0" 1
      "[0, 1, 2]" "[1, 3, 2]" sum_regressor "[[0], [1], [2]]"]
    features_example_completes regions_example_completes predictions_example_completes
    residuals_example_completes
  by simp


text \<open>C5 on a classifier and a regressor that carry a field besides \<^verbatim>\<open>predict\<close>.\<close>

theorem predict_only_witness:
  "plot_decision_regions exact quiet [(0, 0), (1, 1), (2, 2)] [1, 0, 1]
      \<lparr>predict = \<lambda>points. Inr (map (\<lambda>_. 0) points), \<dots> = ''a fitted model''\<rparr>
      (Some [2]) 1 ''x'' ''y'' None ''best''
     = plot_decision_regions exact quiet [(0, 0), (1, 1), (2, 2)] [1, 0, 1] (constant_classifier 0)
      (Some [2]) 1 ''x'' ''y'' None ''best''
   \<and> plot_predictions quiet [0, 1, 2] [1, 3, 2]
      \<lparr>predict = \<lambda>rows. Inr (map sum_list rows), \<dots> = ''a fitted model''\<rparr>
      (Some [2]) ''x'' ''y'' None ''best''
     = plot_predictions quiet [0, 1, 2] [1, 3, 2] sum_regressor (Some [2]) ''x'' ''y'' None ''best''
   \<and> plot_residuals quiet [[0], [1], [2]] [1, 3, 2]
      \<lparr>predict = \<lambda>rows. Inr (map sum_list rows), \<dots> = ''a fitted model''\<rparr>
      (Some [2]) ''predicted values'' ''residuals'' None ''best''
     = plot_residuals quiet [[0], [1], [2]] [1, 3, 2] sum_regressor
      (Some [2]) ''predicted values'' ''residuals'' None ''best''"
proof -
  have c: "\<forall>x1 x2. grid exact [(0, 0), (1, 1), (2, 2)] 1 = Inr (x1, x2) \<longrightarrow>
      predict \<lparr>predict = \<lambda>points. Inr (map (\<lambda>_. 0) points), \<dots> = ''a fitted model''\<rparr>
        (zip (concat x1) (concat x2))
      = predict (constant_classifier 0) (zip (concat x1) (concat x2))"
    by (simp add: constant_classifier_def)
  have p: "predict \<lparr>predict = \<lambda>rows. Inr (map sum_list rows), \<dots> = ''a fitted model''\<rparr>
        (map (\<lambda>v. [v]) [0, 1, 2])
      = predict sum_regressor (map (\<lambda>v. [v]) [0, 1, 2 :: real])"
    by (simp add: sum_regressor_def)
  have r: "predict \<lparr>predict = \<lambda>rows. Inr (map sum_list rows), \<dots> = ''a fitted model''\<rparr> [[0], [1], [2]]
      = predict sum_regressor [[0], [1], [2 :: real]]"
    by (simp add: sum_regressor_def)
  from predict_only [where clf = "\<lparr>predict = \<lambda>points. Inr (map (\<lambda>_. 0) points), \<dots> = ''a fitted model''\<rparr>"
      and clf' = "constant_classifier 0" and X = "[(0, 0), (1, 1), (2, 2)]" and res = 1
      and fl = exact
      and reg = "\<lparr>predict = \<lambda>rows. Inr (map sum_list rows), \<dots> = ''a fitted model''\<rparr>"
      and reg' = sum_regressor and x = "[0, 1, 2]" and X' = "[[0], [1], [2]]"] c p r
  show ?thesis by blast
qed


section \<open>Residuals\<close>

lemma exec_first_call:
  "\<exists>rest. calls (exec plt (Call c # ss) empty_run) = c # rest"
proof -
  obtain k where "calls (exec plt ss (step plt (Call c) empty_run))
      = calls (step plt (Call c) empty_run) @ take k (planned ss)"
    using exec_calls_prefix by blast
  then show ?thesis by (simp add: empty_run_def)
qed

text \<open>
  C2.  When \<^verbatim>\<open>regressor.predict(X)\<close> returns \<open>y_pred\<close> and the array subtraction
  \<^verbatim>\<open>y_pred - y\<close> returns \<open>d\<close>, the first plotting call of \<open>plot_residuals\<close> is the
  training-data scatter, with \<open>y_pred\<close> as x-coordinates and \<open>d\<close> as
  y-coordinates; for \<open>y\<close> of the length of the prediction, \<open>d\<close> is entry by entry
  the prediction minus the actual value.  (Otherwise no scatter call is made:
  see C4.)
\<close>

theorem residuals_scatter:
  assumes "predict regressor X = Inr y_pred" and "np_sub y_pred y = Inr d"
  shows "(\<exists>a rest. calls (plot_residuals plt X y regressor ti xl yl t loc empty_run) = Scatter a # rest
            \<and> sc_label a = Txt ''training data'' \<and> sc_x a = y_pred \<and> sc_y a = d)
         \<and> (length y = length y_pred \<longrightarrow>
              length d = length y \<and> (\<forall>i<length y. d ! i = y_pred ! i - y ! i))"
proof -
  from assms have "residuals regressor X y = Inr (y_pred, d)"
    by (simp add: residuals_def call_predict_def external_def bind_err_def)
  then have "plot_residuals plt X y regressor ti xl yl t loc empty_run
      = exec plt (Call (Scatter \<lparr>sc_x = y_pred, sc_y = d, sc_alpha = None,
               sc_c = ''steelblue'', sc_marker = Some ''o'', sc_edgecolor = ''white'',
               sc_linewidth = None, sc_s = None, sc_label = Txt ''training data''\<rparr>)
          # (scatter_test_data y_pred d ti 75
             @ [Call (Hlines 0 (-10) 50 ''black'' 1), Call (Xlabel xl), Call (Ylabel yl)]
             @ set_title t @ legend_if_given ti loc @ [Call Show])) empty_run"
    by (simp add: plot_residuals_def del: exec.simps)
  then have first: "\<exists>a rest. calls (plot_residuals plt X y regressor ti xl yl t loc empty_run)
      = Scatter a # rest \<and> sc_label a = Txt ''training data'' \<and> sc_x a = y_pred \<and> sc_y a = d"
    using exec_first_call by (metis scatter_args.select_convs(1,2,9))
  have "length d = length y \<and> (\<forall>i<length y. d ! i = y_pred ! i - y ! i)"
    if "length y = length y_pred"
    using that assms(2) by (auto simp: np_sub_def)
  with first show ?thesis by blast
qed

text \<open>C2 on three samples: predictions 0, 1, 2 against targets 1, 3, 2.\<close>

theorem residuals_scatter_witness:
  "\<exists>rest. calls (plot_residuals quiet [[0], [1], [2]] [1, 3, 2] sum_regressor (Some [2])
     ''predicted values'' ''residuals'' None ''best'' empty_run)
     = Scatter \<lparr>sc_x = [0, 1, 2], sc_y = [- 1, - 2, 0], sc_alpha = None,
               sc_c = ''steelblue'', sc_marker = Some ''o'', sc_edgecolor = ''white'',
               sc_linewidth = None, sc_s = None, sc_label = Txt ''training data''\<rparr> # rest"
proof -
  have p: "predict sum_regressor [[0], [1], [2]] = Inr [0, 1, 2]"
    by (simp add: sum_regressor_def)
  have d: "np_sub [0, 1, 2] [1, 3, 2] = Inr [- 1, - 2, 0]"
    by (simp add: np_sub_def)
  from residuals_scatter [OF p d, of quiet "Some [2]" "''predicted values''" "''residuals''" None
      "''best''"]
  obtain a rest where c: "calls (plot_residuals quiet [[0], [1], [2]] [1, 3, 2] sum_regressor
      (Some [2]) ''predicted values'' ''residuals'' None ''best'' empty_run) = Scatter a # rest"
    and a: "sc_x a = [0, 1, 2]" "sc_y a = [- 1, - 2, 0]"
    by blast
  have "calls (plot_residuals quiet [[0], [1], [2]] [1, 3, 2] sum_regressor
      (Some [2]) ''predicted values'' ''residuals'' None ''best'' empty_run)
      = Scatter \<lparr>sc_x = [0, 1, 2], sc_y = [- 1, - 2, 0], sc_alpha = None,
               sc_c = ''steelblue'', sc_marker = Some ''o'', sc_edgecolor = ''white'',
               sc_linewidth = None, sc_s = None, sc_label = Txt ''training data''\<rparr> # tl (calls (plot_residuals quiet [[0], [1], [2]] [1, 3, 2] sum_regressor
      (Some [2]) ''predicted values'' ''residuals'' None ''best'' empty_run))"
    using c a
    by (simp add: plot_residuals_def residuals_def scatter_test_data_def set_title_def
      legend_if_given_def sum_regressor_def run_defs np_defs)
  then show ?thesis ..
qed


section \<open>An empty list of test indices\<close>

lemma planned_call_with:
  "planned (call_with v f # ss) = (case v of Inl e \<Rightarrow> [] | Inr a \<Rightarrow> [f a]) @ planned ss"
  by (cases v) (simp_all add: call_with_def)

lemma overlay_classes: "\<not> list_ex is_overlay (planned (map (scatter_class X y) cmls))"
  by (induction cmls) (auto simp: scatter_class_def planned_call_with split: sum.splits)

lemma overlay_set_title: "\<not> list_ex is_overlay (planned (set_title t))"
  by (simp add: set_title_def split: option.splits)

lemma overlay_legend: "\<not> list_ex is_overlay (planned (legend_if_given ti loc))"
  by (simp add: legend_if_given_def split: option.splits)

lemma list_ex_take: "\<not> list_ex P cs \<Longrightarrow> \<not> list_ex P (take k cs)"
  by (auto simp: list_ex_iff dest: in_set_takeD)

lemma never_made:
  assumes "\<not> list_ex P (planned ss)"
  shows "\<not> list_ex P (calls (exec plt ss empty_run))"
proof -
  obtain k where "calls (exec plt ss empty_run) = take k (planned ss)"
    using body_prefix by blast
  with assms show ?thesis by (simp add: list_ex_take)
qed

lemma features_no_overlay:
  "ti = None \<or> ti = Some [] \<Longrightarrow>
   \<not> list_ex is_overlay (calls (plot_features plt X y ti xl yl t loc empty_run))"
  unfolding plot_features_def
  by (rule never_made)
    (auto simp: planned_append overlay_classes overlay_set_title scatter_test_def)

lemma regions_no_overlay:
  "ti = None \<or> ti = Some [] \<Longrightarrow>
   \<not> list_ex is_overlay (calls (plot_decision_regions fl plt X y clf ti res xl yl t loc empty_run))"
  unfolding plot_decision_regions_def
  by (rule never_made)
    (auto simp: planned_append planned_call_with overlay_classes overlay_set_title scatter_test_def
      split: sum.splits prod.splits)

lemma predictions_no_overlay:
  "ti = None \<or> ti = Some [] \<Longrightarrow>
   \<not> list_ex is_overlay (calls (plot_predictions plt x y reg ti xl yl t loc empty_run))"
  unfolding plot_predictions_def
  by (rule never_made)
    (auto simp: planned_append planned_call_with overlay_legend overlay_set_title
      scatter_test_data_def split: sum.splits)

lemma residuals_no_overlay:
  "ti = None \<or> ti = Some [] \<Longrightarrow>
   \<not> list_ex is_overlay (calls (plot_residuals plt X y reg ti xl yl t loc empty_run))"
  unfolding plot_residuals_def
  by (rule never_made)
    (auto simp: planned_append planned_call_with overlay_legend overlay_set_title
      scatter_test_data_def split: sum.splits prod.splits)

lemma legend_set_title: "\<not> list_ex is_legend (planned (set_title t))"
  by (simp add: set_title_def split: option.splits)

lemma predictions_no_legend:
  "\<not> list_ex is_legend (calls (plot_predictions plt x y reg None xl yl t loc empty_run))"
  unfolding plot_predictions_def
  by (rule never_made)
    (auto simp: planned_append planned_call_with legend_set_title legend_if_given_def
      scatter_test_data_def split: sum.splits)

lemma residuals_no_legend:
  "\<not> list_ex is_legend (calls (plot_residuals plt X y reg None xl yl t loc empty_run))"
  unfolding plot_residuals_def
  by (rule never_made)
    (auto simp: planned_append planned_call_with legend_set_title legend_if_given_def
      scatter_test_data_def split: sum.splits prod.splits)

lemma in_planned: "Call c \<in> set ss \<Longrightarrow> c \<in> set (planned ss)"
  by (induction ss rule: planned.induct) auto

lemma completed_makes:
  assumes "raised (exec plt ss empty_run) = None" and "Call c \<in> set ss"
  shows "c \<in> set (calls (exec plt ss empty_run))"
  using exec_completed [OF assms(1)] in_planned [OF assms(2)] by (simp add: empty_run_def)

lemma predictions_legend:
  assumes "raised (plot_predictions plt x y reg (Some idx) xl yl t loc empty_run) = None"
  shows "Legend loc \<in> set (calls (plot_predictions plt x y reg (Some idx) xl yl t loc empty_run))"
  using assms unfolding plot_predictions_def
  by (rule completed_makes) (simp add: legend_if_given_def)

lemma residuals_legend:
  assumes "raised (plot_residuals plt X y reg (Some idx) xl yl t loc empty_run) = None"
  shows "Legend loc \<in> set (calls (plot_residuals plt X y reg (Some idx) xl yl t loc empty_run))"
proof (cases "residuals reg X y")
  case (Inl e)
  with assms show ?thesis by (simp add: plot_residuals_def empty_run_def)
next
  case (Inr g)
  obtain sx sy where g: "g = (sx, sy)" by (cases g) auto
  show ?thesis
    using assms unfolding plot_residuals_def Inr g sum.case prod.case
    by (rule completed_makes) (simp add: legend_if_given_def)
qed

text \<open>
  C8.  The overlay is guarded by the truthiness of \<open>test_idx\<close>, the legend of
  the two regression helpers by \<^verbatim>\<open>test_idx is not None\<close>.  So with the empty list
  \<open>plot_features\<close> and \<open>plot_decision_regions\<close> behave exactly as with \<^verbatim>\<open>None\<close>,
  and no helper draws an overlay for either; \<open>plot_predictions\<close> and
  \<open>plot_residuals\<close> draw the legend for the empty list whenever the run gets that
  far without an exception, and never for \<^verbatim>\<open>None\<close>.
\<close>

theorem empty_test_idx:
  "plot_features plt X y (Some []) xl yl t loc = plot_features plt X y None xl yl t loc
   \<and> plot_decision_regions fl plt X y clf (Some []) res xl yl t loc
       = plot_decision_regions fl plt X y clf None res xl yl t loc
   \<and> \<not> list_ex is_overlay (calls (plot_features plt X y None xl yl t loc empty_run))
   \<and> \<not> list_ex is_overlay (calls (plot_decision_regions fl plt X y clf None res xl yl t loc empty_run))
   \<and> \<not> list_ex is_overlay (calls (plot_predictions plt x y' reg (Some []) xl yl t loc empty_run))
   \<and> \<not> list_ex is_overlay (calls (plot_predictions plt x y' reg None xl yl t loc empty_run))
   \<and> \<not> list_ex is_overlay (calls (plot_residuals plt X' y' reg (Some []) xl yl t loc empty_run))
   \<and> \<not> list_ex is_overlay (calls (plot_residuals plt X' y' reg None xl yl t loc empty_run))
   \<and> (raised (plot_predictions plt x y' reg (Some []) xl yl t loc empty_run) = None \<longrightarrow>
        Legend loc \<in> set (calls (plot_predictions plt x y' reg (Some []) xl yl t loc empty_run)))
   \<and> (raised (plot_residuals plt X' y' reg (Some []) xl yl t loc empty_run) = None \<longrightarrow>
        Legend loc \<in> set (calls (plot_residuals plt X' y' reg (Some []) xl yl t loc empty_run)))
   \<and> \<not> list_ex is_legend (calls (plot_predictions plt x y' reg None xl yl t loc empty_run))
   \<and> \<not> list_ex is_legend (calls (plot_residuals plt X' y' reg None xl yl t loc empty_run))"
proof -
  have "plot_features plt X y (Some []) xl yl t loc = plot_features plt X y None xl yl t loc"
    by (simp add: plot_features_def scatter_test_def)
  moreover have "plot_decision_regions fl plt X y clf (Some []) res xl yl t loc
       = plot_decision_regions fl plt X y clf None res xl yl t loc"
    by (cases "grid fl X res") (auto simp: plot_decision_regions_def scatter_test_def)
  ultimately show ?thesis
    by (simp add: features_no_overlay regions_no_overlay predictions_no_overlay
        residuals_no_overlay predictions_no_legend residuals_no_legend predictions_legend
        residuals_legend)
qed


text \<open>
  C8 on the two regression helpers: a legend and no overlay for \<open>[]\<close>, no legend
  for \<^verbatim>\<open>None\<close>.
\<close>

theorem empty_test_idx_witness:
  "list_ex is_legend (calls (plot_residuals quiet [[0], [1], [2]] [1, 3, 2] sum_regressor (Some [])
     ''predicted values'' ''residuals'' None ''best'' empty_run))
   \<and> \<not> list_ex is_overlay (calls (plot_residuals quiet [[0], [1], [2]] [1, 3, 2] sum_regressor
     (Some []) ''predicted values'' ''residuals'' None ''best'' empty_run))
   \<and> \<not> list_ex is_legend (calls (plot_residuals quiet [[0], [1], [2]] [1, 3, 2] sum_regressor None
     ''predicted values'' ''residuals'' None ''best'' empty_run))
   \<and> list_ex is_legend (calls (plot_predictions quiet [0, 1, 2] [1, 3, 2] sum_regressor (Some [])
     ''predicted values'' ''residuals'' None ''best'' empty_run))
   \<and> \<not> list_ex is_legend (calls (plot_predictions quiet [0, 1, 2] [1, 3, 2] sum_regressor None
     ''predicted values'' ''residuals'' None ''best'' empty_run))"
proof -
  have fin: "raised (plot_residuals quiet [[0], [1], [2]] [1, 3, 2] sum_regressor (Some [])
     ''predicted values'' ''residuals'' None ''best'' empty_run) = None"
    by (simp add: plot_residuals_def residuals_def scatter_test_data_def set_title_def
      legend_if_given_def sum_regressor_def run_defs np_defs)
  have fin': "raised (plot_predictions quiet [0, 1, 2] [1, 3, 2] sum_regressor (Some [])
     ''predicted values'' ''residuals'' None ''best'' empty_run) = None"
    by (simp add: plot_predictions_def scatter_test_data_def set_title_def
      legend_if_given_def sum_regressor_def run_defs np_defs)
  from empty_test_idx [where plt = quiet and X' = "[[0], [1], [2]]" and y' = "[1, 3, 2]"
      and x = "[0, 1, 2]"
      and reg = sum_regressor and xl = "''predicted values''" and yl = "''residuals''"
      and t = None and loc = "''best''"] fin fin'
  have "Legend ''best'' \<in> set (calls (plot_residuals quiet [[0], [1], [2]] [1, 3, 2] sum_regressor
      (Some []) ''predicted values'' ''residuals'' None ''best'' empty_run))"
    and "Legend ''best'' \<in> set (calls (plot_predictions quiet [0, 1, 2] [1, 3, 2] sum_regressor
      (Some []) ''predicted values'' ''residuals'' None ''best'' empty_run))"
    and "\<not> list_ex is_overlay (calls (plot_residuals quiet [[0], [1], [2]] [1, 3, 2] sum_regressor
     (Some []) ''predicted values'' ''residuals'' None ''best'' empty_run))"
    and "\<not> list_ex is_legend (calls (plot_residuals quiet [[0], [1], [2]] [1, 3, 2] sum_regressor None
     ''predicted values'' ''residuals'' None ''best'' empty_run))"
    and "\<not> list_ex is_legend (calls (plot_predictions quiet [0, 1, 2] [1, 3, 2] sum_regressor None
     ''predicted values'' ''residuals'' None ''best'' empty_run))"
    by blast+
  then show ?thesis by (auto simp: list_ex_iff intro: bexI [of _ "Legend ''best''"])
qed


section \<open>No validation, recovery or reporting\<close>

text \<open>
  C4, as the code has it.  No helper validates, recovers or reports.  In every
  run of each of the four helpers: each plotting call but the last returned, and
  when the last call raised, the run ends with that very exception and with an
  exception of the plotting library in no other case; nothing is printed; and any
  other exception the run ends with is the one an array operation or \<^verbatim>\<open>predict\<close>
  raised on the helper's input, so the helper raises none of its own.  Malformed
  input reaches the libraries unchecked: a label vector of another length than
  \<open>X\<close> is the array library's \<open>IndexError\<close> in \<open>plot_features\<close>, a non-empty
  list of test indices that the array library rejects is its exception too
  (shown on the backend whose calls all return), an empty \<open>X\<close> with an empty \<open>y\<close>
  is plotted as it is, an empty \<open>X\<close> is the array library's \<open>ValueError\<close> in
  \<open>plot_decision_regions\<close>, and an exception of \<^verbatim>\<open>predict\<close> is the exception of
  \<open>plot_residuals\<close>.  The one test a helper makes of its input is the guard
  \<^verbatim>\<open>if test_idx:\<close>: for the empty list no helper draws the overlay.  \<open>X\<close> and \<open>y\<close>
  are arrays here, as the example script passes them.
\<close>

theorem library_exceptions_propagate:
  "surfaces plt (plot_features plt X y ti xl yl t loc empty_run)
   \<and> stdout (plot_features plt X y ti xl yl t loc empty_run) = []
   \<and> (\<forall>e. raised (plot_features plt X y ti xl yl t loc empty_run) = Some e \<and> \<not> is_plot_error e \<longrightarrow>
         features_library_error X y ti e)
   \<and> surfaces plt (plot_decision_regions fl plt X y clf ti res xl yl t loc empty_run)
   \<and> stdout (plot_decision_regions fl plt X y clf ti res xl yl t loc empty_run) = []
   \<and> (\<forall>e. raised (plot_decision_regions fl plt X y clf ti res xl yl t loc empty_run) = Some e
           \<and> \<not> is_plot_error e \<longrightarrow>
         regions_library_error fl X y clf ti res e)
   \<and> surfaces plt (plot_predictions plt x y' reg ti xl yl t loc empty_run)
   \<and> stdout (plot_predictions plt x y' reg ti xl yl t loc empty_run) = []
   \<and> (\<forall>e. raised (plot_predictions plt x y' reg ti xl yl t loc empty_run) = Some e
           \<and> \<not> is_plot_error e \<longrightarrow>
         predictions_library_error x y' reg ti e)
   \<and> surfaces plt (plot_residuals plt X' y' reg ti xl yl t loc empty_run)
   \<and> stdout (plot_residuals plt X' y' reg ti xl yl t loc empty_run) = []
   \<and> (\<forall>e. raised (plot_residuals plt X' y' reg ti xl yl t loc empty_run) = Some e
           \<and> \<not> is_plot_error e \<longrightarrow>
         residuals_library_error X' y' reg ti e)
   \<and> (length X \<noteq> length y \<and> y \<noteq> [] \<longrightarrow>
        raised (plot_features plt X y ti xl yl t loc empty_run) = Some IndexError
        \<and> calls (plot_features plt X y ti xl yl t loc empty_run) = [])
   \<and> (\<forall>idx e. length X = length y \<and> idx \<noteq> [] \<and> np_take X idx = Inl e \<longrightarrow>
        raised (plot_features quiet X y (Some idx) xl yl t loc empty_run) = Some e)
   \<and> raised (plot_features quiet [] [] None xl yl t loc empty_run) = None
   \<and> (X = [] \<longrightarrow>
        raised (plot_decision_regions fl plt X y clf ti res xl yl t loc empty_run) = Some ValueError
        \<and> calls (plot_decision_regions fl plt X y clf ti res xl yl t loc empty_run) = [])
   \<and> (\<forall>msg. predict reg X' = Inl msg \<longrightarrow>
        raised (plot_residuals plt X' y' reg ti xl yl t loc empty_run) = Some (ExternalError msg)
        \<and> calls (plot_residuals plt X' y' reg ti xl yl t loc empty_run) = [])
   \<and> \<not> list_ex is_overlay (calls (plot_features plt X y (Some []) xl yl t loc empty_run))
   \<and> \<not> list_ex is_overlay
         (calls (plot_decision_regions fl plt X y clf (Some []) res xl yl t loc empty_run))
   \<and> \<not> list_ex is_overlay (calls (plot_predictions plt x y' reg (Some []) xl yl t loc empty_run))
   \<and> \<not> list_ex is_overlay (calls (plot_residuals plt X' y' reg (Some []) xl yl t loc empty_run))"
proof -
  obtain s1 where s1: "\<And>plt. plot_features plt X y ti xl yl t loc = exec plt s1" "body 11 s1"
    using features_body [of X y ti xl yl t loc] by blast
  obtain s2 where s2: "\<And>plt. plot_decision_regions fl plt X y clf ti res xl yl t loc = exec plt s2"
      "body 14 s2"
    using regions_body [of fl X y clf ti res xl yl t loc] by blast
  obtain s3 where s3: "\<And>plt. plot_predictions plt x y' reg ti xl yl t loc = exec plt s3" "body 8 s3"
    using predictions_body [of x y' reg ti xl yl t loc] by blast
  obtain s4 where s4: "\<And>plt. plot_residuals plt X' y' reg ti xl yl t loc = exec plt s4" "body 8 s4"
    using residuals_body [of X' y' reg ti xl yl t loc] by blast
  have silent: "stdout (plot_features plt X y ti xl yl t loc empty_run) = []"
    "stdout (plot_decision_regions fl plt X y clf ti res xl yl t loc empty_run) = []"
    "stdout (plot_predictions plt x y' reg ti xl yl t loc empty_run) = []"
    "stdout (plot_residuals plt X' y' reg ti xl yl t loc empty_run) = []"
    unfolding s1(1) s2(1) s3(1) s4(1)
    using body_silent [OF s1(2)] body_silent [OF s2(2)] body_silent [OF s3(2)]
      body_silent [OF s4(2)]
    by blast+
  have b: "raised (plot_features plt X y ti xl yl t loc empty_run) = Some IndexError
        \<and> calls (plot_features plt X y ti xl yl t loc empty_run) = []"
    if "length X \<noteq> length y" and "y \<noteq> []"
  proof -
    from that(2) have "np_unique y \<noteq> []"
      by (metis np_unique_def set_empty set_remdups set_sort)
    then obtain l ls where "np_unique y = l # ls" by (cases "np_unique y") auto
    with that(1) show ?thesis
      by (simp add: plot_features_def colors_def markers_def scatter_class_def call_with_def
          np_mask_def empty_run_def exec_raised)
  qed
  have c: "raised (plot_decision_regions fl plt X y clf ti res xl yl t loc empty_run) = Some ValueError
        \<and> calls (plot_decision_regions fl plt X y clf ti res xl yl t loc empty_run) = []"
    if "X = []"
    using that
    by (simp add: plot_decision_regions_def grid_def bind_err_def np_min_def empty_run_def)
  have d: "raised (plot_residuals plt X' y' reg ti xl yl t loc empty_run) = Some (ExternalError msg)
        \<and> calls (plot_residuals plt X' y' reg ti xl yl t loc empty_run) = []"
    if "predict reg X' = Inl msg" for msg
    using that
    by (simp add: plot_residuals_def residuals_def bind_err_def call_predict_def external_def
        empty_run_def)
  have e: "raised (plot_features quiet X y (Some idx) xl yl t loc empty_run) = Some e"
    if "length X = length y" and "idx \<noteq> []" and "np_take X idx = Inl e" for idx e
  proof -
    let ?loop = "map (scatter_class X y) (zip colors (zip markers (np_unique y)))"
    have "plot_features quiet X y (Some idx) xl yl t loc empty_run
        = exec quiet (?loop @ Raise e
            # ([Call (Xlabel xl), Call (Ylabel yl)] @ set_title t @ [Call (Legend loc), Call Show]))
            empty_run"
      using that(2,3) by (simp add: plot_features_def scatter_test_def call_with_def)
    moreover have "raised (exec quiet (?loop @ Raise e
            # ([Call (Xlabel xl), Call (Ylabel yl)] @ set_title t @ [Call (Legend loc), Call Show]))
            empty_run) = Some e"
      by (rule exec_raise_after)
        (simp_all add: empty_run_def classes_never_raise [OF that(1)] quiet_def list_all_iff)
    ultimately show ?thesis by simp
  qed
  have f: "raised (plot_features quiet [] [] None xl yl t loc empty_run) = None"
    by (cases t)
      (simp_all add: plot_features_def scatter_test_def set_title_def np_unique_def run_defs)
  have g: "\<not> list_ex is_overlay (calls (plot_features plt X y (Some []) xl yl t loc empty_run))"
    "\<not> list_ex is_overlay
         (calls (plot_decision_regions fl plt X y clf (Some []) res xl yl t loc empty_run))"
    "\<not> list_ex is_overlay (calls (plot_predictions plt x y' reg (Some []) xl yl t loc empty_run))"
    "\<not> list_ex is_overlay (calls (plot_residuals plt X' y' reg (Some []) xl yl t loc empty_run))"
    by (simp_all add: features_no_overlay regions_no_overlay predictions_no_overlay
        residuals_no_overlay)
  have o: "\<forall>e. raised (plot_features plt X y ti xl yl t loc empty_run) = Some e \<and> \<not> is_plot_error e \<longrightarrow>
         features_library_error X y ti e"
    "\<forall>e. raised (plot_decision_regions fl plt X y clf ti res xl yl t loc empty_run) = Some e
           \<and> \<not> is_plot_error e \<longrightarrow>
         regions_library_error fl X y clf ti res e"
    "\<forall>e. raised (plot_predictions plt x y' reg ti xl yl t loc empty_run) = Some e
           \<and> \<not> is_plot_error e \<longrightarrow>
         predictions_library_error x y' reg ti e"
    "\<forall>e. raised (plot_residuals plt X' y' reg ti xl yl t loc empty_run) = Some e
           \<and> \<not> is_plot_error e \<longrightarrow>
         residuals_library_error X' y' reg ti e"
    by (blast intro: features_origin regions_origin predictions_origin residuals_origin)+
  have b': "length X \<noteq> length y \<and> y \<noteq> [] \<longrightarrow>
        raised (plot_features plt X y ti xl yl t loc empty_run) = Some IndexError
        \<and> calls (plot_features plt X y ti xl yl t loc empty_run) = []"
    using b by blast
  have c': "X = [] \<longrightarrow>
        raised (plot_decision_regions fl plt X y clf ti res xl yl t loc empty_run) = Some ValueError
        \<and> calls (plot_decision_regions fl plt X y clf ti res xl yl t loc empty_run) = []"
    using c by blast
  have d': "\<forall>msg. predict reg X' = Inl msg \<longrightarrow>
        raised (plot_residuals plt X' y' reg ti xl yl t loc empty_run) = Some (ExternalError msg)
        \<and> calls (plot_residuals plt X' y' reg ti xl yl t loc empty_run) = []"
    using d by blast
  have e': "\<forall>idx e. length X = length y \<and> idx \<noteq> [] \<and> np_take X idx = Inl e \<longrightarrow>
        raised (plot_features quiet X y (Some idx) xl yl t loc empty_run) = Some e"
    using e by blast
  show ?thesis
    by (intro conjI)
      (fact features_surfaces regions_surfaces predictions_surfaces residuals_surfaces
        silent o b' c' d' e' f g)+
qed

text \<open>
  The claim as written says that no helper checks the emptiness of \<open>test_idx\<close>.
  The array library accepts the empty index list and returns no rows; yet
  \<open>plot_features\<close> draws the overlay for the list \<open>[0]\<close> and none for the empty
  list, in two runs that complete.
\<close>

theorem empty_test_idx_is_tested:
  "np_take [(0, 0)] [] = Inr ([] :: (real \<times> real) list)
   \<and> raised (plot_features quiet [(0, 0)] [0] (Some []) ''x'' ''y'' None ''best'' empty_run) = None
   \<and> \<not> list_ex is_overlay
        (calls (plot_features quiet [(0, 0)] [0] (Some []) ''x'' ''y'' None ''best'' empty_run))
   \<and> raised (plot_features quiet [(0, 0)] [0] (Some [0]) ''x'' ''y'' None ''best'' empty_run) = None
   \<and> list_ex is_overlay
        (calls (plot_features quiet [(0, 0)] [0] (Some [0]) ''x'' ''y'' None ''best'' empty_run))"
  by (simp add: plot_features_def scatter_class_def scatter_test_def set_title_def colors_def
      markers_def run_defs np_defs)

text \<open>
  C4 on a label vector one longer than \<open>X\<close>, on a test index out of range, on
  an empty \<open>X\<close>, on a regressor whose \<^verbatim>\<open>predict\<close> raises, and on a backend whose
  legend call raises: the run ends there with that exception.
\<close>

theorem library_exceptions_propagate_witness:
  "raised (plot_features quiet [(0, 0)] [1, 0] None ''x'' ''y'' None ''best'' empty_run)
     = Some IndexError
   \<and> calls (plot_features quiet [(0, 0)] [1, 0] None ''x'' ''y'' None ''best'' empty_run) = []
   \<and> features_library_error [(0, 0)] [1, 0] None IndexError
   \<and> raised (plot_features quiet [(0, 0)] [0] (Some [5]) ''x'' ''y'' None ''best'' empty_run)
     = Some IndexError
   \<and> raised (plot_decision_regions exact quiet [] [] (constant_classifier 0) None 1 ''x'' ''y'' None
        ''best'' empty_run) = Some ValueError
   \<and> raised (plot_residuals quiet [[0]] [1] \<lparr>predict = \<lambda>rows. Inl ''not fitted''\<rparr> None
        ''predicted values'' ''residuals'' None ''best'' empty_run)
       = Some (ExternalError ''not fitted'')
   \<and> raised (plot_features failing_legend [(0, 0), (1, 1), (2, 2)] [1, 0, 1] None ''x'' ''y'' None
        ''best'' empty_run) = Some (PlotError ''no handles'')
   \<and> last (calls (plot_features failing_legend [(0, 0), (1, 1), (2, 2)] [1, 0, 1] None ''x'' ''y''
        None ''best'' empty_run)) = Legend ''best''"
proof -
  have mismatch: "length [(0, 0) :: real \<times> real] \<noteq> length [1, 0 :: int] \<and> [1, 0 :: int] \<noteq> []"
    by simp
  have unfitted: "predict \<lparr>predict = \<lambda>rows :: real list list. (Inl ''not fitted'' :: string + real list)\<rparr> [[0]]
      = Inl ''not fitted''"
    by simp
  have last_call: "last (calls (plot_features failing_legend [(0, 0), (1, 1), (2, 2)] [1, 0, 1]
      None ''x'' ''y'' None ''best'' empty_run)) = Legend ''best''"
    and made: "calls (plot_features failing_legend [(0, 0), (1, 1), (2, 2)] [1, 0, 1]
      None ''x'' ''y'' None ''best'' empty_run) \<noteq> []"
    by (simp_all add: plot_features_def scatter_class_def scatter_test_def set_title_def
        colors_def markers_def failing_legend_def run_defs np_defs)
  note at_mismatch = library_exceptions_propagate [where plt = quiet and X = "[(0, 0)]"
      and y = "[1, 0]" and ti = None and xl = "''x''" and yl = "''y''" and t = None
      and loc = "''best''"]
  from at_mismatch mismatch
  have a: "raised (plot_features quiet [(0, 0)] [1, 0] None ''x'' ''y'' None ''best'' empty_run)
     = Some IndexError
   \<and> calls (plot_features quiet [(0, 0)] [1, 0] None ''x'' ''y'' None ''best'' empty_run) = []"
    by blast
  have "\<not> is_plot_error IndexError" by simp
  with at_mismatch a have o: "features_library_error [(0, 0)] [1, 0] None IndexError"
    by blast
  from library_exceptions_propagate [where plt = quiet and X = "[]" and y = "[]"
      and fl = exact and clf = "constant_classifier 0" and ti = None and res = 1
      and xl = "''x''" and yl = "''y''" and t = None and loc = "''best''"]
  have b: "raised (plot_decision_regions exact quiet [] [] (constant_classifier 0) None 1 ''x'' ''y'' None
        ''best'' empty_run) = Some ValueError"
    by blast
  from library_exceptions_propagate [where plt = quiet and X' = "[[0]]" and y' = "[1]"
      and reg = "\<lparr>predict = \<lambda>rows. Inl ''not fitted''\<rparr>" and ti = None
      and xl = "''predicted values''" and yl = "''residuals''" and t = None and loc = "''best''"]
    unfitted
  have c: "raised (plot_residuals quiet [[0]] [1] \<lparr>predict = \<lambda>rows. Inl ''not fitted''\<rparr> None
        ''predicted values'' ''residuals'' None ''best'' empty_run)
       = Some (ExternalError ''not fitted'')"
    by blast
  from library_exceptions_propagate [where plt = failing_legend and X = "[(0, 0), (1, 1), (2, 2)]"
      and y = "[1, 0, 1]" and ti = None and xl = "''x''" and yl = "''y''" and t = None
      and loc = "''best''"]
  have "surfaces failing_legend (plot_features failing_legend [(0, 0), (1, 1), (2, 2)] [1, 0, 1]
      None ''x'' ''y'' None ''best'' empty_run)"
    by blast
  with last_call made
  have f: "raised (plot_features failing_legend [(0, 0), (1, 1), (2, 2)] [1, 0, 1] None ''x'' ''y''
        None ''best'' empty_run) = Some (PlotError ''no handles'')"
    by (simp add: surfaces_def failing_legend_def)
  have range: "length [(0, 0) :: real \<times> real] = length [0 :: int] \<and> [5 :: int] \<noteq> []
      \<and> np_take [(0, 0) :: real \<times> real] [5] = Inl IndexError"
    by (simp add: np_take_def as_intp_def bind_err_def)
  from library_exceptions_propagate [where X = "[(0, 0)]" and y = "[0]"
      and xl = "''x''" and yl = "''y''" and t = None and loc = "''best''"] range
  have d: "raised (plot_features quiet [(0, 0)] [0] (Some [5]) ''x'' ''y'' None ''best'' empty_run)
     = Some IndexError"
    by blast
  from a o b c d f last_call show ?thesis by blast
qed


section \<open>The grid of the decision regions\<close>

lemma np_min_Min:
  assumes "xs \<noteq> []"
  shows "np_min xs = Inr (Min (set xs))"
proof (cases xs)
  case Nil
  with assms show ?thesis by simp
next
  case (Cons v vs)
  then show ?thesis using Min.set_eq_fold [of v vs] by (simp add: np_min_def)
qed

lemma np_max_Max:
  assumes "xs \<noteq> []"
  shows "np_max xs = Inr (Max (set xs))"
proof (cases xs)
  case Nil
  with assms show ?thesis by simp
next
  case (Cons v vs)
  then show ?thesis using Max.set_eq_fold [of v vs] by (simp add: np_max_def)
qed

lemma arange_exact:
  assumes "stp \<noteq> 0"
  shows "np_arange exact start stop stp
    = Inr (map (\<lambda>i. start + real i * stp) [0..<nat \<lceil>(stop - start) / stp\<rceil>])"
proof -
  have "(\<lambda>i :: nat. if i = 0 then start else if i = 1 then start + stp
         else start + real i * (start + stp - start)) = (\<lambda>i. start + real i * stp)"
    by (rule ext) simp
  then show ?thesis
    using assms by (simp add: np_arange_def exact_def Let_def)
qed

lemma arange_cover:
  assumes "0 < r" and "r \<le> 1" and "lo \<le> hi"
  shows "\<exists>a. np_arange exact (lo - 1) (hi + 1) r = Inr a \<and> a \<noteq> [] \<and> lo - 1 \<in> set a
           \<and> (\<forall>v\<in>set a. lo - 1 \<le> v) \<and> (\<exists>v\<in>set a. hi \<le> v)"
proof -
  define q where "q = (hi + 1 - (lo - 1)) / r"
  define n where "n = nat \<lceil>q\<rceil>"
  define a where "a = map (\<lambda>i. lo - 1 + real i * r) [0..<n]"
  have qpos: "0 < q" using assms by (simp add: q_def)
  then have cpos: "0 < \<lceil>q\<rceil>" by (simp add: ceiling_less_iff) 
  then have npos: "0 < n" by (simp add: n_def)
  have "q \<le> real_of_int \<lceil>q\<rceil>" by (rule le_of_int_ceiling)
  also have "\<dots> = real n" using cpos by (simp add: n_def)
  finally have "q \<le> real n" .
  then have "hi + 1 - (lo - 1) \<le> real n * r"
    using assms(1) by (simp add: q_def pos_divide_le_eq)
  then have top: "hi \<le> lo - 1 + real (n - 1) * r"
    using assms(2) npos by (simp add: algebra_simps)
  have eq: "np_arange exact (lo - 1) (hi + 1) r = Inr a"
    using assms(1) by (simp add: arange_exact a_def n_def q_def)
  have ne: "a \<noteq> []" using npos by (simp add: a_def)
  have first: "lo - 1 \<in> set a"
    using npos by (auto simp: a_def image_iff intro: bexI [of _ 0])
  have low: "\<forall>v\<in>set a. lo - 1 \<le> v"
    using assms(1) by (auto simp: a_def)
  have "lo - 1 + real (n - 1) * r \<in> set a"
    using npos by (auto simp: a_def image_iff intro: bexI [of _ "n - 1"])
  with top have "\<exists>v\<in>set a. hi \<le> v" by blast
  with eq ne first low show ?thesis by blast
qed


lemma min_max_Min_Max: "concat a \<noteq> [] \<Longrightarrow> min_max a = Inr (Min (set (concat a)), Max (set (concat a)))"
  by (simp add: min_max_def bind_err_def np_min_Min np_max_Max)

lemma meshgrid_sets:
  assumes "a \<noteq> []" and "b \<noteq> []"
  shows "set (concat (fst (np_meshgrid a b))) = set a"
    and "set (concat (snd (np_meshgrid a b))) = set b"
proof -
  from assms(2) show "set (concat (fst (np_meshgrid a b))) = set a"
    by (cases b) (auto simp: np_meshgrid_def)
  from assms(1) obtain u where u: "u \<in> set a" by (cases a) auto
  have "(\<lambda>_. v) ` set a = {v}" for v :: real using u by auto
  then show "set (concat (snd (np_meshgrid a b))) = set b"
    by (simp add: np_meshgrid_def)
qed

lemma grid_covers:
  assumes "X \<noteq> []" and "0 < res" and "res \<le> 1"
  shows "\<exists>x1 x2 xlo xhi ylo yhi.
           grid exact X res = Inr (x1, x2) \<and> min_max x1 = Inr (xlo, xhi) \<and> min_max x2 = Inr (ylo, yhi)
           \<and> np_min (map fst X) = Inr (xlo + 1) \<and> np_min (map snd X) = Inr (ylo + 1)
           \<and> inside_limits (xlo, xhi) (ylo, yhi) X"
proof -
  let ?us = "map fst X" and ?vs = "map snd X"
  define lo1 hi1 lo2 hi2 where "lo1 = Min (set ?us)" and "hi1 = Max (set ?us)"
    and "lo2 = Min (set ?vs)" and "hi2 = Max (set ?vs)"
  from assms(1) have ne: "?us \<noteq> []" "?vs \<noteq> []" by simp_all
  have b1: "\<forall>u\<in>set ?us. lo1 \<le> u \<and> u \<le> hi1" by (simp add: lo1_def hi1_def)
  have b2: "\<forall>v\<in>set ?vs. lo2 \<le> v \<and> v \<le> hi2" by (simp add: lo2_def hi2_def)
  have le1: "lo1 \<le> hi1" using ne(1) b1 by (cases ?us) auto
  have le2: "lo2 \<le> hi2" using ne(2) b2 by (cases ?vs) auto
  obtain a where a: "np_arange exact (lo1 - 1) (hi1 + 1) res = Inr a" "a \<noteq> []" "lo1 - 1 \<in> set a"
    "\<forall>v\<in>set a. lo1 - 1 \<le> v" "\<exists>v\<in>set a. hi1 \<le> v"
    using arange_cover [OF assms(2,3) le1] by blast
  obtain b where b: "np_arange exact (lo2 - 1) (hi2 + 1) res = Inr b" "b \<noteq> []" "lo2 - 1 \<in> set b"
    "\<forall>v\<in>set b. lo2 - 1 \<le> v" "\<exists>v\<in>set b. hi2 \<le> v"
    using arange_cover [OF assms(2,3) le2] by blast
  obtain x1 x2 where m: "np_meshgrid a b = (x1, x2)" by (cases "np_meshgrid a b") auto
  have g: "grid exact X res = Inr (x1, x2)"
    using ne a(1) b(1) m
    by (simp add: grid_def bind_err_def np_min_Min np_max_Max lo1_def hi1_def lo2_def hi2_def
        exact_def)
  have s1: "set (concat x1) = set a" and s2: "set (concat x2) = set b"
    using meshgrid_sets [OF a(2) b(2)] m by simp_all
  have c1: "concat x1 \<noteq> []" using s1 a(2) by (metis set_empty)
  have c2: "concat x2 \<noteq> []" using s2 b(2) by (metis set_empty)
  have xlo: "Min (set a) = lo1 - 1"
    using a(3,4) by (intro Min_eqI) auto
  have ylo: "Min (set b) = lo2 - 1"
    using b(3,4) by (intro Min_eqI) auto
  have xhi: "hi1 \<le> Max (set a)"
    using a(5) by (meson List.finite_set Max_ge order_trans)
  have yhi: "hi2 \<le> Max (set b)"
    using b(5) by (meson List.finite_set Max_ge order_trans)
  have mm1: "min_max x1 = Inr (lo1 - 1, Max (set a))"
    using min_max_Min_Max [OF c1] s1 xlo by simp
  have mm2: "min_max x2 = Inr (lo2 - 1, Max (set b))"
    using min_max_Min_Max [OF c2] s2 ylo by simp
  have ins: "inside_limits (lo1 - 1, Max (set a)) (lo2 - 1, Max (set b)) X"
    unfolding inside_limits_def list_all_iff
  proof (intro ballI)
    fix p assume p: "p \<in> set X"
    then have "fst p \<in> set ?us" and "snd p \<in> set ?vs" by auto
    with b1 b2 xhi yhi
    have "lo1 - 1 \<le> fst p \<and> fst p \<le> Max (set a) \<and> lo2 - 1 \<le> snd p \<and> snd p \<le> Max (set b)"
      by fastforce
    then show "case p of (u, v) \<Rightarrow> fst (lo1 - 1, Max (set a)) \<le> u \<and> u \<le> snd (lo1 - 1, Max (set a))
        \<and> fst (lo2 - 1, Max (set b)) \<le> v \<and> v \<le> snd (lo2 - 1, Max (set b))"
      by (cases p) simp
  qed
  have "np_min ?us = Inr (lo1 - 1 + 1)" "np_min ?vs = Inr (lo2 - 1 + 1)"
    using ne by (simp_all add: np_min_Min lo1_def lo2_def)
  with g mm1 mm2 ins show ?thesis by blast
qed


lemma regions_limits:
  assumes "grid fl X res = Inr (x1, x2)" and "min_max x1 = Inr (xlo, xhi)"
    and "min_max x2 = Inr (ylo, yhi)"
    and "raised (plot_decision_regions fl plt X y clf ti res xl yl t loc empty_run) = None"
  shows "Xlim xlo xhi \<in> set (calls (plot_decision_regions fl plt X y clf ti res xl yl t loc empty_run))
    \<and> Ylim ylo yhi \<in> set (calls (plot_decision_regions fl plt X y clf ti res xl yl t loc empty_run))"
proof -
  note fin = assms(4) [unfolded plot_decision_regions_def assms(1) sum.case prod.case]
  have "Xlim xlo xhi \<in> set (calls (plot_decision_regions fl plt X y clf ti res xl yl t loc empty_run))"
    unfolding plot_decision_regions_def assms(1) sum.case prod.case
    using fin by (rule completed_makes) (simp add: assms(2) call_with_def)
  moreover
  have "Ylim ylo yhi \<in> set (calls (plot_decision_regions fl plt X y clf ti res xl yl t loc empty_run))"
    unfolding plot_decision_regions_def assms(1) sum.case prod.case
    using fin by (rule completed_makes) (simp add: assms(3) call_with_def)
  ultimately show ?thesis ..
qed

lemma rounding_mono: "rounding fl \<Longrightarrow> a \<le> b \<Longrightarrow> fl a \<le> fl b"
  by (simp add: rounding_def)

lemma rounding_idem: "rounding fl \<Longrightarrow> fl (fl a) = fl a"
  by (simp add: rounding_def)

lemma rounding_nonneg: "rounding fl \<Longrightarrow> 0 \<le> a \<Longrightarrow> 0 \<le> fl a"
  using rounding_mono [of fl 0 a] by (simp add: rounding_def)

lemma rounding_nonpos: "rounding fl \<Longrightarrow> a \<le> 0 \<Longrightarrow> fl a \<le> 0"
  using rounding_mono [of fl a 0] by (simp add: rounding_def)

lemma arange_step_positive:
  assumes "rounding fl" and "start \<le> stop" and "np_arange fl start stop stp = Inr a" and "a \<noteq> []"
  shows "0 < stp"
proof (rule ccontr)
  assume "\<not> 0 < stp"
  moreover from assms(3) have nz: "stp \<noteq> 0" by (auto simp: np_arange_def split: if_splits)
  ultimately have neg: "stp < 0" by simp
  have "0 \<le> fl (stop - start)" using assms(1,2) by (simp add: rounding_nonneg)
  with neg have "fl (stop - start) / stp \<le> 0" by (simp add: divide_nonneg_neg)
  then have "fl (fl (stop - start) / stp) \<le> 0" by (rule rounding_nonpos [OF assms(1)])
  then have "nat \<lceil>fl (fl (stop - start) / stp)\<rceil> = 0" by (simp add: ceiling_le_zero)
  with assms(3) nz have "a = []" by (auto simp: np_arange_def Let_def)
  with assms(4) show False by simp
qed

lemma arange_lower:
  assumes "rounding fl" and "fl start = start" and "np_arange fl start stop stp = Inr a"
    and "a \<noteq> []" and "0 < stp"
  shows "start \<in> set a \<and> (\<forall>v\<in>set a. start \<le> v)"
proof -
  define n where "n = nat \<lceil>fl (fl (stop - start) / stp)\<rceil>"
  define second where "second = fl (start + stp)"
  define delta where "delta = fl (second - start)"
  define f where "f = (\<lambda>i :: nat. if i = 0 then start else if i = 1 then second
                            else fl (start + fl (real i * delta)))"
  from assms(5) have "np_arange fl start stop stp = Inr (map f [0..<n])"
    unfolding np_arange_def Let_def f_def n_def second_def delta_def by simp
  with assms(3) have a: "a = map f [0..<n]" by simp
  with assms(4) have npos: "0 < n" by simp
  have "fl start \<le> fl (start + stp)"
    using assms(5) by (simp add: rounding_mono [OF assms(1)])
  with assms(2) have s: "start \<le> second" by (simp add: second_def)
  then have d: "0 \<le> delta"
    by (simp add: delta_def rounding_nonneg [OF assms(1)])
  have "start \<le> f i" for i
  proof -
    have "0 \<le> real i * delta" using d by simp
    then have "0 \<le> fl (real i * delta)" by (rule rounding_nonneg [OF assms(1)])
    then have "start \<le> start + fl (real i * delta)" by simp
    then have "fl start \<le> fl (start + fl (real i * delta))"
      by (rule rounding_mono [OF assms(1)])
    with assms(2) have "start \<le> fl (start + fl (real i * delta))" by simp
    with s show ?thesis by (simp add: f_def)
  qed
  then have low: "\<forall>v\<in>set a. start \<le> v" by (auto simp: a)
  have "f 0 \<in> set a" using npos by (auto simp: a image_iff intro: bexI [of _ 0])
  then have "start \<in> set a" by (simp add: f_def)
  with low show ?thesis by blast
qed


lemma grid_parts:
  assumes "grid fl X res = Inr (x1, x2)"
  shows "\<exists>lo1 hi1 lo2 hi2 a b.
    np_min (map fst X) = Inr lo1 \<and> np_max (map fst X) = Inr hi1
    \<and> np_min (map snd X) = Inr lo2 \<and> np_max (map snd X) = Inr hi2
    \<and> np_arange fl (fl (lo1 - 1)) (fl (hi1 + 1)) res = Inr a
    \<and> np_arange fl (fl (lo2 - 1)) (fl (hi2 + 1)) res = Inr b
    \<and> np_meshgrid a b = (x1, x2)"
  using assms by (auto simp: grid_def bind_err_def split: sum.splits)

lemma np_min_Inr: "np_min xs = Inr m \<Longrightarrow> xs \<noteq> [] \<and> m = Min (set xs)"
  using np_min_Min [of xs] by (cases xs) (auto simp: np_min_def)

lemma np_max_Inr: "np_max xs = Inr m \<Longrightarrow> xs \<noteq> [] \<and> m = Max (set xs)"
  using np_max_Max [of xs] by (cases xs) (auto simp: np_max_def)

lemma min_max_Inr:
  assumes "min_max a = Inr (lo, hi)"
  shows "concat a \<noteq> [] \<and> lo = Min (set (concat a))"
  using assms np_min_Inr [of "concat a"]
  by (auto simp: min_max_def bind_err_def split: sum.splits)

lemma range_lower:
  assumes "rounding fl" and "np_min us = Inr lo" and "np_max us = Inr hi"
    and "np_arange fl (fl (lo - 1)) (fl (hi + 1)) res = Inr a" and "a \<noteq> []"
    and "\<forall>u\<in>set us. fl u = u"
  shows "Min (set a) = fl (lo - 1) \<and> (\<forall>u\<in>set us. fl (lo - 1) \<le> u)"
proof -
  from np_min_Inr [OF assms(2)] np_max_Inr [OF assms(3)]
  have ne: "us \<noteq> []" and lo: "lo = Min (set us)" and hi: "hi = Max (set us)" by simp_all
  then have "lo \<le> hi" by (cases us) (auto simp: Min_le_iff)
  then have "lo - 1 \<le> hi + 1" by simp
  then have le: "fl (lo - 1) \<le> fl (hi + 1)" by (rule rounding_mono [OF assms(1)])
  have pos: "0 < res" using assms(1) le assms(4,5) by (rule arange_step_positive)
  have fixed: "fl (fl (lo - 1)) = fl (lo - 1)" by (rule rounding_idem [OF assms(1)])
  from arange_lower [OF assms(1) fixed assms(4,5) pos]
  have first: "Min (set a) = fl (lo - 1)" by (intro Min_eqI) auto
  have "lo \<in> set us" using ne lo by (metis List.finite_set Min_in set_empty)
  with assms(6) have "fl lo = lo" by blast
  moreover have "fl (lo - 1) \<le> fl lo" by (rule rounding_mono [OF assms(1)]) simp
  ultimately have "fl (lo - 1) \<le> lo" by simp
  moreover have "\<forall>u\<in>set us. lo \<le> u" using lo by simp
  ultimately have "\<forall>u\<in>set us. fl (lo - 1) \<le> u" by fastforce
  with first show ?thesis ..
qed

lemma grid_lower_limits:
  assumes "rounding fl" and "list_all (\<lambda>(u, v). fl u = u \<and> fl v = v) X"
    and "grid fl X res = Inr (x1, x2)"
    and "min_max x1 = Inr (xlo, xhi)" and "min_max x2 = Inr (ylo, yhi)"
  shows "(\<exists>lo1 lo2. np_min (map fst X) = Inr lo1 \<and> np_min (map snd X) = Inr lo2
            \<and> xlo = fl (lo1 - 1) \<and> ylo = fl (lo2 - 1))
         \<and> above_lower_limits xlo ylo X"
proof -
  from grid_parts [OF assms(3)] obtain lo1 hi1 lo2 hi2 a b where
    m: "np_min (map fst X) = Inr lo1" "np_max (map fst X) = Inr hi1"
       "np_min (map snd X) = Inr lo2" "np_max (map snd X) = Inr hi2"
    and a: "np_arange fl (fl (lo1 - 1)) (fl (hi1 + 1)) res = Inr a"
    and b: "np_arange fl (fl (lo2 - 1)) (fl (hi2 + 1)) res = Inr b"
    and g: "np_meshgrid a b = (x1, x2)"
    by blast
  from min_max_Inr [OF assms(4)] have c1: "concat x1 \<noteq> []" and xlo: "xlo = Min (set (concat x1))"
    by simp_all
  from min_max_Inr [OF assms(5)] have ylo: "ylo = Min (set (concat x2))" by simp
  from c1 g have ne: "a \<noteq> []" "b \<noteq> []" by (auto simp: np_meshgrid_def)
  from meshgrid_sets [OF ne] g have s: "set (concat x1) = set a" "set (concat x2) = set b"
    by simp_all
  have f1: "\<forall>u\<in>set (map fst X). fl u = u" and f2: "\<forall>v\<in>set (map snd X). fl v = v"
    using assms(2) by (auto simp: list_all_iff)
  from range_lower [OF assms(1) m(1,2) a ne(1) f1]
  have x: "Min (set a) = fl (lo1 - 1)" "\<forall>u\<in>set (map fst X). fl (lo1 - 1) \<le> u" by simp_all
  from range_lower [OF assms(1) m(3,4) b ne(2) f2]
  have y: "Min (set b) = fl (lo2 - 1)" "\<forall>v\<in>set (map snd X). fl (lo2 - 1) \<le> v" by simp_all
  from xlo s(1) x(1) have xl: "xlo = fl (lo1 - 1)" by metis
  from ylo s(2) y(1) have yl: "ylo = fl (lo2 - 1)" by metis
  have "above_lower_limits xlo ylo X"
    using x(2) y(2) unfolding xl yl by (auto simp: above_lower_limits_def list_all_iff)
  with m xl yl show ?thesis by blast
qed

lemma regions_completed_grid:
  assumes "raised (plot_decision_regions fl plt X y clf ti res xl yl t loc empty_run) = None"
  shows "\<exists>x1 x2 xlo xhi ylo yhi. grid fl X res = Inr (x1, x2)
    \<and> min_max x1 = Inr (xlo, xhi) \<and> min_max x2 = Inr (ylo, yhi)"
proof (cases "grid fl X res")
  case (Inl e)
  with assms show ?thesis by (simp add: plot_decision_regions_def empty_run_def)
next
  case (Inr g)
  obtain x1 x2 where g: "g = (x1, x2)" by (cases g) auto
  note fin = assms [unfolded plot_decision_regions_def Inr g sum.case prod.case]
  from exec_completed [OF fin]
  have "\<not> raises (call_with (min_max x1) (\<lambda>(lo, hi). Xlim lo hi))"
    and "\<not> raises (call_with (min_max x2) (\<lambda>(lo, hi). Ylim lo hi))"
    by simp_all
  then obtain l1 l2 where "min_max x1 = Inr l1" "min_max x2 = Inr l2"
    by (cases "min_max x1"; cases "min_max x2") (simp_all add: call_with_def)
  with Inr g show ?thesis by (cases l1; cases l2) auto
qed

text \<open>
  C9, as the code has it.  In a run of \<open>plot_decision_regions\<close> that completes,
  on samples that are floats: the grid is computed, its least coordinate in each
  feature dimension is the minimum of the samples minus one (rounded), every
  sample lies at or above these two values, and the least and the greatest grid
  coordinate of each dimension are the limits the helper passes to \<^verbatim>\<open>plt.xlim\<close>
  and \<^verbatim>\<open>plt.ylim\<close>.  Nothing is said of the upper limits: the last grid
  coordinate may lie below the greatest sample.
\<close>

theorem samples_above_lower_limits:
  assumes "rounding fl" and "list_all (\<lambda>(u, v). fl u = u \<and> fl v = v) X"
    and "raised (plot_decision_regions fl plt X y clf ti res xl yl t loc empty_run) = None"
  shows "\<exists>x1 x2 xlo xhi ylo yhi lo1 lo2.
           grid fl X res = Inr (x1, x2) \<and> min_max x1 = Inr (xlo, xhi) \<and> min_max x2 = Inr (ylo, yhi)
           \<and> np_min (map fst X) = Inr lo1 \<and> np_min (map snd X) = Inr lo2
           \<and> xlo = fl (lo1 - 1) \<and> ylo = fl (lo2 - 1)
           \<and> above_lower_limits xlo ylo X
           \<and> Xlim xlo xhi
                \<in> set (calls (plot_decision_regions fl plt X y clf ti res xl yl t loc empty_run))
           \<and> Ylim ylo yhi
                \<in> set (calls (plot_decision_regions fl plt X y clf ti res xl yl t loc empty_run))"
proof -
  from regions_completed_grid [OF assms(3)] obtain x1 x2 xlo xhi ylo yhi
    where g: "grid fl X res = Inr (x1, x2)" "min_max x1 = Inr (xlo, xhi)"
      "min_max x2 = Inr (ylo, yhi)"
    by blast
  from grid_lower_limits [OF assms(1,2) g] regions_limits [OF g assms(3)] g
  show ?thesis by blast
qed

text \<open>
  The claim as written, for every non-empty \<open>X\<close>, fails at the upper limits, for
  instance for a resolution above one: with samples \<open>(0, 0)\<close> and \<open>(4, 4)\<close> and resolution 3 the grid coordinates
  are \<open>-1\<close> and \<open>2\<close>, the axis limits are \<open>(-1, 2)\<close>, and the sample \<open>(4, 4)\<close> is
  outside.
\<close>

theorem samples_outside_coarse_grid:
  "raised (plot_decision_regions exact quiet [(0, 0), (4, 4)] [0, 1] (constant_classifier 0) None 3
      ''x'' ''y'' None ''best'' empty_run) = None
   \<and> Xlim (- 1) 2 \<in> set (calls (plot_decision_regions exact quiet [(0, 0), (4, 4)] [0, 1]
      (constant_classifier 0) None 3 ''x'' ''y'' None ''best'' empty_run))
   \<and> Ylim (- 1) 2 \<in> set (calls (plot_decision_regions exact quiet [(0, 0), (4, 4)] [0, 1]
      (constant_classifier 0) None 3 ''x'' ''y'' None ''best'' empty_run))
   \<and> \<not> inside_limits (- 1, 2) (- 1, 2) [(0, 0), (4, 4)]"
  by (simp add: plot_decision_regions_def grid_def predict_grid_def min_max_def ncols_def
        constant_classifier_def scatter_class_def scatter_test_def set_title_def colors_def
        markers_def run_defs np_defs upt_conv_Cons inside_limits_def)

text \<open>C9 on three samples with resolution 1.\<close>

theorem samples_above_lower_limits_witness:
  "\<exists>xlo xhi ylo yhi.
     above_lower_limits xlo ylo [(0, 0), (1, 1), (2, 2)]
     \<and> xlo = exact (0 - 1) \<and> ylo = exact (0 - 1)
     \<and> Xlim xlo xhi \<in> set (calls (plot_decision_regions exact quiet [(0, 0), (1, 1), (2, 2)]
             [1, 0, 1] (constant_classifier 0) (Some [2]) 1 ''x'' ''y'' None ''best'' empty_run))
     \<and> Ylim ylo yhi \<in> set (calls (plot_decision_regions exact quiet [(0, 0), (1, 1), (2, 2)]
             [1, 0, 1] (constant_classifier 0) (Some [2]) 1 ''x'' ''y'' None ''best'' empty_run))"
proof -
  have r: "rounding exact" by (simp add: rounding_def exact_def)
  have f: "list_all (\<lambda>(u, v). exact u = u \<and> exact v = v) [(0, 0), (1, 1), (2, 2)]"
    by (simp add: exact_def)
  have m: "np_min (map fst [(0, 0), (1, 1), (2, 2 :: real)]) = Inr (0 :: real)"
    "np_min (map snd [(0, 0 :: real), (1, 1), (2, 2)]) = Inr (0 :: real)"
    by (simp_all add: np_min_def)
  from samples_above_lower_limits [OF r f regions_example_completes] m
  show ?thesis by (metis sum.inject(2))
qed


section \<open>The rows at the test indices\<close>

lemma nth_append_upt: "map ((!) (a @ b)) [length a..<length a + length b] = b"
  by (rule nth_equalityI) (simp_all add: nth_append)

lemma take_test_indices:
  assumes "length y = length a + length b"
    and "length y_train = length a"
    and "int (length y) < 2 ^ 63"
  shows "np_take (a @ b) (test_indices y_train y) = Inr b"
proof -
  have "list_all (\<lambda>i. - (2 ^ 63) \<le> i \<and> i < 2 ^ 63) (test_indices y_train y)"
    using assms(3) by (auto simp: test_indices_def list_all_iff)
  then have cast: "as_intp (test_indices y_train y) = Inr (test_indices y_train y)"
    by (simp add: as_intp_def)
  have "list_all (\<lambda>i. - int (length (a @ b)) \<le> i \<and> i < int (length (a @ b)))
      (test_indices y_train y)"
    using assms by (auto simp: test_indices_def list_all_iff)
  moreover have "map (\<lambda>i. (a @ b) ! nat (if i < 0 then i + int (length (a @ b)) else i))
      (test_indices y_train y) = map ((!) (a @ b)) [length a..<length a + length b]"
    using assms by (simp add: test_indices_def comp_def)
  ultimately show ?thesis
    by (simp add: np_take_def cast bind_err_def Let_def nth_append_upt del: length_append)
qed

section \<open>The example script: four classifiers, four counts\<close>

lemma np_sum_ne:
  assumes "length a = length b" and "np_ne a b = Inr wrong"
  shows "np_sum wrong = misclassified a b"
proof -
  from assms have w: "wrong = map (\<lambda>(u, v). u \<noteq> v) (zip a b)"
    by (simp add: np_ne_def)
  have "zip a b = map (\<lambda>i. (a ! i, b ! i)) [0..<length a]"
    using assms(1) by (intro nth_equalityI) simp_all
  then have "wrong = map (\<lambda>i. a ! i \<noteq> b ! i) [0..<length a]"
    using w by simp
  then show ?thesis
    by (simp add: np_sum_def misclassified_def filter_map comp_def)
qed

lemma regions_stdout:
  "stdout (plot_decision_regions fl plt X y clf ti res xl yl t loc r) = stdout r"
proof -
  obtain ss where "\<And>plt. plot_decision_regions fl plt X y clf ti res xl yl t loc = exec plt ss"
    and "body 14 ss"
    using regions_body [of fl X y clf ti res xl yl t loc] by blast
  then show ?thesis by (simp add: body_def exec_stdout)
qed

lemma regions_raised:
  assumes "raised (plot_decision_regions fl plt X y clf ti res xl yl t loc r) = None"
  shows "raised r = None"
proof -
  obtain ss where "\<And>plt. plot_decision_regions fl plt X y clf ti res xl yl t loc = exec plt ss"
    using regions_body [of fl X y clf ti res xl yl t loc] by blast
  with assms exec_completed [of plt ss r] show ?thesis by simp
qed

lemma show_classifier_prints:
  assumes "raised (show_classifier fl plt Xtr Xte ytr yte y c r) = None"
  shows "raised r = None \<and>
    (\<exists>p wrong. predict c Xte = Inr p \<and> np_ne yte p = Inr wrong
       \<and> stdout (show_classifier fl plt Xtr Xte ytr yte y c r) = stdout r @ [report_line (np_sum wrong)])"
proof -
  let ?r = "exec plt [report c Xte yte] r"
  from assms have mid: "raised ?r = None"
    unfolding show_classifier_def by (rule regions_raised)
  from exec_completed [OF mid] have r: "raised r = None" and nr: "\<not> raises (report c Xte yte)"
    by simp_all
  from nr obtain p wrong where p: "predict c Xte = Inr p" and w: "np_ne yte p = Inr wrong"
    by (auto simp: report_def bind_err_def call_predict_def external_def split: sum.splits)
  then have "report c Xte yte = Print (report_line (np_sum wrong))"
    by (simp add: report_def bind_err_def call_predict_def external_def report_line_def)
  with r have "stdout ?r = stdout r @ [report_line (np_sum wrong)]" by simp
  then have "stdout (show_classifier fl plt Xtr Xte ytr yte y c r)
      = stdout r @ [report_line (np_sum wrong)]"
    unfolding show_classifier_def by (simp only: regions_stdout)
  with r p w show ?thesis by blast
qed

lemma loop_prints:
  assumes "raised (fold (show_classifier fl plt Xtr Xte ytr yte y) cs r) = None"
    and "list_all (\<lambda>c. case predict c Xte of Inl _ \<Rightarrow> True | Inr p \<Rightarrow> length p = length yte) cs"
  shows "raised r = None \<and>
    (\<exists>preds. map (\<lambda>c. predict c Xte) cs = map Inr preds
       \<and> stdout (fold (show_classifier fl plt Xtr Xte ytr yte y) cs r)
           = stdout r @ map (\<lambda>p. report_line (misclassified yte p)) preds)"
  using assms
proof (induction cs arbitrary: r)
  case Nil
  then show ?case by simp
next
  case (Cons c cs)
  let ?r = "show_classifier fl plt Xtr Xte ytr yte y c r"
  from Cons.prems have fin: "raised (fold (show_classifier fl plt Xtr Xte ytr yte y) cs ?r) = None"
    and rest: "list_all (\<lambda>c. case predict c Xte of Inl _ \<Rightarrow> True | Inr p \<Rightarrow> length p = length yte) cs"
    by simp_all
  from Cons.IH [OF fin rest] obtain preds
    where mid: "raised ?r = None" and ps: "map (\<lambda>c. predict c Xte) cs = map Inr preds"
      and out: "stdout (fold (show_classifier fl plt Xtr Xte ytr yte y) cs ?r)
           = stdout ?r @ map (\<lambda>p. report_line (misclassified yte p)) preds"
    by blast
  from show_classifier_prints [OF mid] obtain p wrong
    where r: "raised r = None" and p: "predict c Xte = Inr p" and w: "np_ne yte p = Inr wrong"
      and line: "stdout ?r = stdout r @ [report_line (np_sum wrong)]"
    by blast
  from Cons.prems(2) p have "length yte = length p" by simp
  from np_sum_ne [OF this w] line
  have "stdout ?r = stdout r @ [report_line (misclassified yte p)]" by simp
  with out have "stdout (fold (show_classifier fl plt Xtr Xte ytr yte y) (c # cs) r)
      = stdout r @ map (\<lambda>p. report_line (misclassified yte p)) (p # preds)"
    by simp
  moreover from p ps have "map (\<lambda>c. predict c Xte) (c # cs) = map Inr (p # preds)" by simp
  ultimately show ?case using r by blast
qed

lemma fit_four:
  assumes "fit_classifiers sk Xtr ytr = Inr cs"
  shows "map Inr cs
    = map (\<lambda>(k, p). knn_fit sk k p ''minkowski'' Xtr ytr) [(4, 2), (5, 2), (6, 2), (5, 1)]"
  using assms
  by (auto simp: fit_classifiers_def bind_err_def external_def split: sum.splits)

lemma prepare_fit:
  assumes "prepare sk X y = Inr (Xtr, Xte, ytr, yte, cs)"
  shows "fit_classifiers sk Xtr ytr = Inr cs"
  using assms
  by (auto simp: prepare_def bind_err_def external_def split: sum.splits prod.splits)

text \<open>
  C3.  The script fits four k-nearest-neighbours classifiers, with
  \<open>(n_neighbors, p)\<close> equal to \<open>(4, 2)\<close>, \<open>(5, 2)\<close>, \<open>(6, 2)\<close> and \<open>(5, 1)\<close>, all
  with the Minkowski metric on the standardised training data.  When each
  classifier predicts one label per test sample and the script runs to its end,
  it prints four lines, one per classifier in that order, and the count in each
  is the number of test-set positions at which that classifier's prediction
  differs from the true test label.
\<close>

theorem four_classifiers_and_counts:
  assumes "prepare sk X y = Inr (X_train_std, X_test_std, y_train, y_test, classifiers)"
    and "list_all (\<lambda>c. case predict c X_test_std of Inl _ \<Rightarrow> True
                        | Inr p \<Rightarrow> length p = length y_test) classifiers"
    and "raised (main fl plt sk X y empty_run) = None"
  shows "length classifiers = 4
    \<and> map Inr classifiers
        = map (\<lambda>(k, p). knn_fit sk k p ''minkowski'' X_train_std y_train)
            [(4, 2), (5, 2), (6, 2), (5, 1)]
    \<and> (\<exists>preds. map (\<lambda>c. predict c X_test_std) classifiers = map Inr preds
         \<and> stdout (main fl plt sk X y empty_run)
             = map (\<lambda>p. ''misclassified samples: '' @ str_nat (misclassified y_test p)) preds)"
proof -
  have four: "map Inr classifiers
        = map (\<lambda>(k, p). knn_fit sk k p ''minkowski'' X_train_std y_train)
            [(4, 2), (5, 2), (6, 2), (5, 1)]"
    using prepare_fit [OF assms(1)] by (rule fit_four)
  then have "length (map Inr classifiers :: (string + (samples, int list) estimator) list) = 4"
    by simp
  then have len: "length classifiers = 4" by simp
  have m: "main fl plt sk X y empty_run
    = fold (show_classifier fl plt X_train_std X_test_std y_train y_test y) classifiers empty_run"
    using assms(1) by (simp add: main_def)
  from loop_prints [OF assms(3) [unfolded m] assms(2)] four len show ?thesis
    unfolding m by (simp add: empty_run_def report_line_def)
qed


section \<open>Runs that complete\<close>

text \<open>
  On a backend whose calls all return, \<open>plot_decision_regions\<close> completes for
  well-formed input: a non-empty \<open>X\<close> with one label per row, a resolution in
  \<open>(0, 1]\<close>, a classifier that predicts one label per point, and test indices
  within range.
\<close>

lemma set_title_never_raises: "\<not> list_ex raises (set_title t)"
  by (simp add: set_title_def split: option.splits)

lemma scatter_test_never_raises:
  assumes "np_take X idx = Inr rows"
  shows "\<not> list_ex raises (scatter_test X (Some idx))"
  using assms by (simp add: scatter_test_def raises_call_with)

lemma length_concat_const: "length (concat (map (\<lambda>_. a) b)) = length b * length a"
  by (induction b) simp_all

lemma length_concat_rows:
  "length (concat (map (\<lambda>v. map (\<lambda>_. f v) a) b)) = length b * length a"
  by (induction b) simp_all

lemma meshgrid_points:
  assumes "np_meshgrid a b = (x1, x2)"
  shows "length (zip (concat x1) (concat x2)) = length x1 * ncols x1"
proof -
  from assms have x1: "x1 = map (\<lambda>_. a) b" and x2: "x2 = map (\<lambda>v. map (\<lambda>_. v) a) b"
    by (simp_all add: np_meshgrid_def)
  have "length (concat x1) = length b * length a"
    unfolding x1 by (rule length_concat_const)
  moreover have "length (concat x2) = length b * length a"
    unfolding x2 by (rule length_concat_rows)
  moreover have "length x1 * ncols x1 = length b * length a"
    unfolding x1 by (cases b) (simp_all add: ncols_def)
  ultimately show ?thesis by simp
qed

lemma grid_meshgrid:
  assumes "grid fl X res = Inr (x1, x2)"
  shows "\<exists>a b. np_meshgrid a b = (x1, x2)"
  using assms by (auto simp: grid_def bind_err_def split: sum.splits)

lemma predict_grid_returns:
  assumes "grid fl X res = Inr (x1, x2)"
    and "\<And>points. \<exists>z. predict clf points = Inr z \<and> length z = length points"
  shows "\<exists>z. predict_grid clf x1 x2 = Inr z"
proof -
  obtain a b where "np_meshgrid a b = (x1, x2)" using grid_meshgrid [OF assms(1)] by blast
  then have n: "length (zip (concat x1) (concat x2)) = length x1 * ncols x1"
    by (rule meshgrid_points)
  obtain z where "predict clf (zip (concat x1) (concat x2)) = Inr z"
    and "length z = length (zip (concat x1) (concat x2))"
    using assms(2) by blast
  with n show ?thesis
    by (simp add: predict_grid_def bind_err_def call_predict_def external_def np_reshape_def)
qed

lemma regions_completes:
  assumes "X \<noteq> []" and "0 < res" and "res \<le> 1" and "length X = length y"
    and "\<And>points. \<exists>z. predict clf points = Inr z \<and> length z = length points"
    and "np_take X idx = Inr rows"
    and "raised r = None"
  shows "raised (plot_decision_regions exact quiet X y clf (Some idx) res xl yl t loc r) = None"
proof -
  from grid_covers [OF assms(1-3)] obtain x1 x2 xlo xhi ylo yhi
    where g: "grid exact X res = Inr (x1, x2)" and m1: "min_max x1 = Inr (xlo, xhi)"
      and m2: "min_max x2 = Inr (ylo, yhi)"
    by blast
  obtain z where z: "predict_grid clf x1 x2 = Inr z"
    using predict_grid_returns [OF g assms(5)] by blast
  show ?thesis
    unfolding plot_decision_regions_def g sum.case prod.case
    using assms(7)
    by (intro exec_quiet)
      (simp_all add: raises_call_with z m1 m2 classes_never_raise [OF assms(4)]
        scatter_test_never_raises [OF assms(6)] set_title_never_raises)
qed


lemma show_classifier_completes:
  assumes "Xtr @ Xte \<noteq> []" and "length Xtr = length ytr" and "length Xte = length yte"
    and "length y = length ytr + length yte" and "int (length y) < 2 ^ 63"
    and "\<And>points. predict c points = Inr (map (\<lambda>_. l) points)"
    and "raised r = None"
  shows "raised (show_classifier exact quiet Xtr Xte ytr yte y c r) = None"
proof -
  have p: "\<exists>z. predict c points = Inr z \<and> length z = length points" for points
    using assms(6) by simp
  have "np_ne yte (map (\<lambda>_. l) Xte) = Inr (map (\<lambda>(u, v). u \<noteq> v) (zip yte (map (\<lambda>_. l) Xte)))"
    using assms(3) by (simp add: np_ne_def)
  then have "\<not> raises (report c Xte yte)"
    using assms(6)
    by (simp add: report_def bind_err_def call_predict_def external_def)
  then have r: "raised (exec quiet [report c Xte yte] r) = None"
    using assms(7) exec_quiet [of "[report c Xte yte]" r] by simp
  have idx: "np_take (Xtr @ Xte) (test_indices ytr y) = Inr Xte"
    using assms(2-5) by (intro take_test_indices) simp_all
  have len: "length (Xtr @ Xte) = length (ytr @ yte)" using assms(2,3) by simp
  show ?thesis
    unfolding show_classifier_def
    by (rule regions_completes [OF assms(1) _ _ len p idx r]) (simp_all add: exact_def)
qed

lemma toy_prepare:
  "prepare toy_sklearn [(0, 0), (1, 1), (2, 2), (3, 3)] [0, 1, 0, 0]
     = Inr ([(0, 0), (1, 1)], [(2, 2), (3, 3)], [0, 1], [0, 0],
         [constant_classifier 0, constant_classifier 1, constant_classifier 0,
          constant_classifier 1])"
  by (simp add: prepare_def fit_classifiers_def toy_sklearn_def bind_err_def external_def)

lemma toy_completes:
  "raised (main exact quiet toy_sklearn [(0, 0), (1, 1), (2, 2), (3, 3)] [0, 1, 0, 0] empty_run) = None"
proof -
  have c: "raised (show_classifier exact quiet [(0, 0), (1, 1)] [(2, 2), (3, 3)] [0, 1] [0, 0]
      [0, 1, 0, 0] (constant_classifier l) r) = None" if "raised r = None" for l r
    using that
    by (intro show_classifier_completes [where l = l]) (simp_all add: constant_classifier_def)
  have "raised empty_run = None" by (simp add: empty_run_def)
  then show ?thesis
    by (simp add: main_def toy_prepare c)
qed

text \<open>
  C3 on four samples and the stand-in toolkit: the test labels are \<open>0, 0\<close>, the
  classifiers predict 0, 1, 0 and 1 everywhere, and the run completes.
\<close>

theorem four_classifiers_and_counts_witness:
  "stdout (main exact quiet toy_sklearn [(0, 0), (1, 1), (2, 2), (3, 3)] [0, 1, 0, 0] empty_run)
     = [''misclassified samples: 0'', ''misclassified samples: 2'',
        ''misclassified samples: 0'', ''misclassified samples: 2'']"
proof -
  have contract: "list_all (\<lambda>c. case predict c [(2, 2), (3, 3)] of Inl _ \<Rightarrow> True
        | Inr p \<Rightarrow> length p = length ([0, 0] :: int list))
      [constant_classifier 0, constant_classifier 1, constant_classifier 0, constant_classifier 1]"
    by (simp add: constant_classifier_def)
  from four_classifiers_and_counts [OF toy_prepare contract toy_completes]
  obtain preds where
    p: "map (\<lambda>c. predict c [(2, 2), (3, 3)])
          [constant_classifier 0, constant_classifier 1, constant_classifier 0,
           constant_classifier 1] = map Inr preds"
    and out: "stdout (main exact quiet toy_sklearn [(0, 0), (1, 1), (2, 2), (3, 3)] [0, 1, 0, 0] empty_run)
      = map (\<lambda>p. ''misclassified samples: '' @ str_nat (misclassified [0, 0] p)) preds"
    by blast
  from p have "map Inr preds = (map Inr [[0, 0], [1, 1], [0, 0], [1, 1]]
      :: (string + int list) list)"
    by (simp add: constant_classifier_def)
  then have "preds = [[0, 0], [1, 1], [0, 0], [1, 1]]"
    by (simp only: inj_map_eq_map [OF inj_Inr])
  with out show ?thesis
    by (simp add: misclassified_def upt_conv_Cons str_nat.simps)
qed

section \<open>The test indices of the example script\<close>

lemma no_overlay: "\<not> list_ex is_overlay cs \<Longrightarrow> filter is_overlay cs = []"
  by (simp add: list_ex_iff filter_empty_conv)

lemma planned_report: "planned [report c Xte yte] = []"
  by (simp add: report_def split: sum.splits)

lemma planned_overlays:
  assumes "\<And>z. \<not> is_overlay (f z)" and "\<And>l. \<not> is_overlay (g l)" and "\<And>l. \<not> is_overlay (h l)"
  shows "filter is_overlay (planned ([call_with v f]
        @ map (scatter_class X y) cmls @ st
        @ [call_with m1 g, call_with m2 h, Call (Xlabel xl), Call (Ylabel yl)]
        @ set_title t @ [Call (Legend loc), Call Show]))
    = filter is_overlay (planned st)"
  using assms
  by (cases v; cases m1; cases m2)
    (simp_all add: planned_append call_with_def no_overlay [OF overlay_classes]
      no_overlay [OF overlay_set_title])

lemma regions_overlays:
  assumes "raised (plot_decision_regions fl plt X y clf (Some idx) res xl yl t loc r) = None"
    and "np_take X idx = Inr rows"
  shows "overlays (plot_decision_regions fl plt X y clf (Some idx) res xl yl t loc r)
    = overlays r @ (if idx = [] then [] else [test_set_scatter rows])"
proof (cases "grid fl X res")
  case (Inl e)
  with assms(1) have False
    by (cases "raised r") (simp_all add: plot_decision_regions_def)
  then show ?thesis ..
next
  case (Inr g)
  obtain x1 x2 where g: "g = (x1, x2)" by (cases g) auto
  note fin = assms(1) [unfolded plot_decision_regions_def Inr g sum.case prod.case]
  note made = exec_completed [OF fin, THEN conjunct1]
  have drawn: "filter is_overlay (planned (scatter_test X (Some idx)))
      = (if idx = [] then [] else [test_set_scatter rows])"
    using assms(2) by (simp add: scatter_test_def call_with_def test_set_scatter_def)
  have "filter is_overlay (planned ([call_with (predict_grid clf x1 x2)
               (\<lambda>z. Contourf x1 x2 z 0.3 (take (length (np_unique y)) colors))]
            @ map (scatter_class X y) (zip colors (zip markers (np_unique y)))
            @ scatter_test X (Some idx)
            @ [call_with (min_max x1) (\<lambda>(lo, hi). Xlim lo hi),
               call_with (min_max x2) (\<lambda>(lo, hi). Ylim lo hi),
               Call (Xlabel xl), Call (Ylabel yl)]
            @ set_title t
            @ [Call (Legend loc), Call Show]))
      = filter is_overlay (planned (scatter_test X (Some idx)))"
    by (rule planned_overlays) (simp_all add: split_def)
  with drawn show ?thesis
    unfolding plot_decision_regions_def Inr g sum.case prod.case overlays_def made
    by (simp only: filter_append)
qed

lemma show_classifier_overlays:
  assumes "raised (show_classifier fl plt Xtr Xte ytr yte y c r) = None"
    and "np_take (Xtr @ Xte) (test_indices ytr y) = Inr Xte"
    and "test_indices ytr y = [] \<longleftrightarrow> Xte = []"
  shows "raised r = None \<and> overlays (show_classifier fl plt Xtr Xte ytr yte y c r)
    = overlays r @ (if Xte = [] then [] else [test_set_scatter Xte])"
proof -
  let ?r = "exec plt [report c Xte yte] r"
  from assms(1) have mid: "raised ?r = None"
    unfolding show_classifier_def by (rule regions_raised)
  from exec_completed [OF mid] have r: "raised r = None"
    and c: "calls ?r = calls r @ planned [report c Xte yte]"
    by blast+
  from c have "overlays ?r = overlays r" by (simp only: overlays_def planned_report append_Nil2)
  with regions_overlays [OF assms(1) [unfolded show_classifier_def] assms(2)] assms(3) r
  show ?thesis by (simp add: show_classifier_def)
qed

lemma loop_overlays:
  assumes "raised (fold (show_classifier fl plt Xtr Xte ytr yte y) cs r) = None"
    and "np_take (Xtr @ Xte) (test_indices ytr y) = Inr Xte"
    and "test_indices ytr y = [] \<longleftrightarrow> Xte = []"
  shows "raised r = None \<and> overlays (fold (show_classifier fl plt Xtr Xte ytr yte y) cs r)
    = overlays r @ concat (map (\<lambda>c. if Xte = [] then [] else [test_set_scatter Xte]) cs)"
  using assms(1)
proof (induction cs arbitrary: r)
  case Nil
  then show ?case by simp
next
  case (Cons c cs)
  let ?r = "show_classifier fl plt Xtr Xte ytr yte y c r"
  from Cons.prems have fin: "raised (fold (show_classifier fl plt Xtr Xte ytr yte y) cs ?r) = None"
    by simp
  from Cons.IH [OF fin] have mid: "raised ?r = None"
    and rest: "overlays (fold (show_classifier fl plt Xtr Xte ytr yte y) cs ?r)
      = overlays ?r @ concat (map (\<lambda>c. if Xte = [] then [] else [test_set_scatter Xte]) cs)"
    by simp_all
  from show_classifier_overlays [OF mid assms(2,3)] rest show ?case by simp
qed

text \<open>
  C10.  For every classifier, the script calls \<open>plot_decision_regions\<close> on the
  stacked arrays with \<^verbatim>\<open>list(range(len(y_train), len(y)))\<close> as \<open>test_idx\<close>.
  When the split and the scaler keep their contract (as many standardised
  training samples as training labels, as many standardised test samples as test
  labels, the labels of \<open>y\<close> all in one of the two parts, fewer than \<open>2 ^ 63\<close> of
  them), these indices select from the stacked arrays exactly the standardised
  test samples and the test labels; and in a run of the script that completes,
  the overlays drawn are, classifier by classifier, the scatter of exactly the
  standardised test samples (none when there is no test sample).
\<close>

theorem test_idx_selects_test_samples:
  assumes "prepare sk X y = Inr (X_train_std, X_test_std, y_train, y_test, classifiers)"
    and "length X_train_std = length y_train" and "length X_test_std = length y_test"
    and "length y = length y_train + length y_test" and "int (length y) < 2 ^ 63"
  shows "main fl plt sk X y r
      = fold (\<lambda>classifier r.
          plot_decision_regions fl plt (X_train_std @ X_test_std) (y_train @ y_test) classifier
            (Some (map int [length y_train..<length y])) (fl 0.02) ''x'' ''y'' None ''best''
            (exec plt [report classifier X_test_std y_test] r)) classifiers r
    \<and> np_take (X_train_std @ X_test_std) (map int [length y_train..<length y]) = Inr X_test_std
    \<and> np_take (y_train @ y_test) (map int [length y_train..<length y]) = Inr y_test
    \<and> (raised (main fl plt sk X y empty_run) = None \<longrightarrow>
         overlays (main fl plt sk X y empty_run)
           = concat (map (\<lambda>classifier. if X_test_std = [] then [] else [test_set_scatter X_test_std])
               classifiers))"
proof -
  have x: "np_take (X_train_std @ X_test_std) (test_indices y_train y) = Inr X_test_std"
    using assms(2-5) by (intro take_test_indices) simp_all
  have y: "np_take (y_train @ y_test) (test_indices y_train y) = Inr y_test"
    using assms(2-5) by (intro take_test_indices) simp_all
  have e: "test_indices y_train y = [] \<longleftrightarrow> X_test_std = []"
    using assms(3,4) by (cases X_test_std; cases y_test) (auto simp: test_indices_def)
  have "show_classifier fl plt X_train_std X_test_std y_train y_test y
      = (\<lambda>classifier r.
          plot_decision_regions fl plt (X_train_std @ X_test_std) (y_train @ y_test) classifier
            (Some (map int [length y_train..<length y])) (fl 0.02) ''x'' ''y'' None ''best''
            (exec plt [report classifier X_test_std y_test] r))"
    by (intro ext) (simp add: show_classifier_def test_indices_def)
  then have m: "main fl plt sk X y r
      = fold (\<lambda>classifier r.
          plot_decision_regions fl plt (X_train_std @ X_test_std) (y_train @ y_test) classifier
            (Some (map int [length y_train..<length y])) (fl 0.02) ''x'' ''y'' None ''best''
            (exec plt [report classifier X_test_std y_test] r)) classifiers r"
    by (simp add: main_def assms(1))
  have o: "overlays (main fl plt sk X y empty_run)
           = concat (map (\<lambda>classifier. if X_test_std = [] then [] else [test_set_scatter X_test_std])
               classifiers)"
    if "raised (main fl plt sk X y empty_run) = None"
  proof -
    from that have "raised (fold (show_classifier fl plt X_train_std X_test_std y_train y_test y)
        classifiers empty_run) = None"
      by (simp add: main_def assms(1))
    from loop_overlays [OF this x e] show ?thesis
      by (simp add: main_def assms(1) overlays_def empty_run_def)
  qed
  from m x y o show ?thesis by (simp add: test_indices_def)
qed

text \<open>C10 on two training and two test samples and the stand-in toolkit.\<close>

theorem test_idx_selects_test_samples_witness:
  "np_take ([(0, 0), (1, 1)] @ [(2, 2), (3, 3)]) (map int [2..<4])
     = Inr ([(2, 2), (3, 3)] :: (real \<times> real) list)
   \<and> np_take ([0, 1] @ [0, 0]) (map int [2..<4]) = Inr ([0, 0] :: int list)
   \<and> overlays (main exact quiet toy_sklearn [(0, 0), (1, 1), (2, 2), (3, 3)] [0, 1, 0, 0] empty_run)
       = [test_set_scatter [(2, 2), (3, 3)], test_set_scatter [(2, 2), (3, 3)],
          test_set_scatter [(2, 2), (3, 3)], test_set_scatter [(2, 2), (3, 3)]]"
proof -
  have "length ([(0, 0), (1, 1)] :: (real \<times> real) list) = length ([0, 1] :: int list)"
    and "length ([(2, 2), (3, 3)] :: (real \<times> real) list) = length ([0, 0] :: int list)"
    and "length ([0, 1, 0, 0] :: int list) = length ([0, 1] :: int list) + length ([0, 0] :: int list)"
    and "int (length ([0, 1, 0, 0] :: int list)) < 2 ^ 63"
    by simp_all
  from test_idx_selects_test_samples [OF toy_prepare this, of exact quiet empty_run] toy_completes
  have "np_take ([(0, 0), (1, 1)] @ [(2, 2), (3, 3)])
        (map int [length ([0, 1] :: int list)..<length ([0, 1, 0, 0] :: int list)])
      = Inr ([(2, 2), (3, 3)] :: (real \<times> real) list)"
    and "np_take ([0, 1] @ [0, 0])
        (map int [length ([0, 1] :: int list)..<length ([0, 1, 0, 0] :: int list)])
      = Inr ([0, 0] :: int list)"
    and "overlays (main exact quiet toy_sklearn [(0, 0), (1, 1), (2, 2), (3, 3)] [0, 1, 0, 0] empty_run)
       = concat (map (\<lambda>classifier. if [(2, 2), (3, 3)] = ([] :: samples) then []
                        else [test_set_scatter [(2, 2), (3, 3)]])
           [constant_classifier 0, constant_classifier 1, constant_classifier 0,
            constant_classifier 1])"
    by blast+
  then show ?thesis by simp
qed


end
